theory Spec2Isabelle
  imports Complex_Main
begin

section \<open>Python values, exceptions and upstream data\<close>

text \<open>
  The exporter is one asyncio task: \<^verbatim>\<open>update_metrics_loop\<close> awaits its three
  collectors one after the other and then sleeps. Nothing else mutates the gauges, so the
  program is modelled as a sequential state transformer. Everything the program cannot
  decide by itself (what the router, the HTTP lookup, the speed test and the probe answer,
  and how long each of these calls takes) is an input of the model.

  Every handler of the source is \<^verbatim>\<open>except Exception\<close>: it catches the instances of
  \<^verbatim>\<open>Exception\<close> (timeouts, connection, authentication and protocol errors) and
  lets the other instances of \<^verbatim>\<open>BaseException\<close> (KeyboardInterrupt, SystemExit,
  a cancellation) pass.
\<close>

datatype exn = Exception string | BaseException string

datatype 'a result = Returns 'a | Raises exn

text \<open>A call to a collaborator: the seconds it takes and how it ends.\<close>

type_synonym 'a call = "real \<times> 'a result"

text \<open>A JSON scalar as Python sees it, with \<^verbatim>\<open>str(v)\<close> and the truth value of \<^verbatim>\<open>v\<close>.\<close>

datatype pyval = PyNone | PyBool bool | PyInt int | PyStr string

fun digits_of :: "nat \<Rightarrow> string" where
  "digits_of n =
     (if n < 10 then [''0123456789'' ! n]
      else digits_of (n div 10) @ [''0123456789'' ! (n mod 10)])"

declare digits_of.simps [simp del]

definition str_int :: "int \<Rightarrow> string" where
  "str_int i = (if i < 0 then CHR ''-'' # digits_of (nat (- i)) else digits_of (nat i))"

fun py_str :: "pyval \<Rightarrow> string" where
  "py_str PyNone = ''None''"
| "py_str (PyBool b) = (if b then ''True'' else ''False'')"
| "py_str (PyInt i) = str_int i"
| "py_str (PyStr s) = s"

fun truthy :: "pyval \<Rightarrow> bool" where
  "truthy PyNone = False"
| "truthy (PyBool b) = b"
| "truthy (PyInt i) = (i \<noteq> 0)"
| "truthy (PyStr s) = (s \<noteq> [])"

text \<open>\<^verbatim>\<open>str(x)\<close> of an optional string or number, for a label value.\<close>

definition str_opt :: "string option \<Rightarrow> string" where
  "str_opt x = (case x of None \<Rightarrow> ''None'' | Some s \<Rightarrow> s)"

definition str_int_opt :: "int option \<Rightarrow> string" where
  "str_int_opt x = (case x of None \<Rightarrow> ''None'' | Some i \<Rightarrow> str_int i)"

text \<open>\<^verbatim>\<open>x or "unknown"\<close>: None and the empty string both give the default.\<close>

definition or_unknown :: "string option \<Rightarrow> string" where
  "or_unknown x = (case x of None \<Rightarrow> ''unknown'' | Some s \<Rightarrow> if s = [] then ''unknown'' else s)"

text \<open>
  \<^verbatim>\<open>str(xs or [])\<close> of an optional list; each entry of the model's list is the
  \<^verbatim>\<open>repr\<close> text of the Python entry.
\<close>

fun join_comma :: "string list \<Rightarrow> string" where
  "join_comma [] = []"
| "join_comma [x] = x"
| "join_comma (x # y # ys) = x @ '', '' @ join_comma (y # ys)"

definition str_list_or_empty :: "string list option \<Rightarrow> string" where
  "str_list_or_empty x =
     (case x of None \<Rightarrow> ''[]'' | Some xs \<Rightarrow> ''['' @ join_comma xs @ '']'')"

text \<open>
  What \<^verbatim>\<open>client.get_device_info()\<close> returns (the attributes the source reads).
  The two numbers go to \<^verbatim>\<open>Gauge.set\<close> as they are and can be \<open>None\<close>.
\<close>

record device_info =
  mac_address :: string
  build_date :: string
  up_time :: "int option"
  reboot_count :: "int option"
  model_name :: string
  serial_number :: string
  software_version :: string

text \<open>
  One entry of \<^verbatim>\<open>client.get_hosts()\<close>. Every attribute of the client's host
  object is optional: the source guards some with \<^verbatim>\<open>or "unknown"\<close> and passes the
  lease numbers to \<^verbatim>\<open>Gauge.set\<close> as they are. \<open>host_id\<close> and \<open>host_alias\<close>
  are the source's \<^verbatim>\<open>d.id\<close> and \<^verbatim>\<open>d.alias\<close>. \<^verbatim>\<open>d.id\<close> is a property that
  the client derives from the host's address: \<open>None\<close> stands for a host that has
  none, where reading \<^verbatim>\<open>d.id\<close> raises.
\<close>

record host =
  host_id :: "string option"
  name :: "string option"
  host_name :: "string option"
  interface_type :: "string option"
  active :: bool
  lease_start :: "int option"
  lease_duration :: "int option"
  lease_time_remaining :: "int option"
  phys_address :: "string option"
  host_alias :: "string option"
  ip_address :: "string option"
  layer1_interface :: "string option"
  layer3_interface :: "string option"
  blacklisted :: bool
  blacklisted_schedule :: "string list option"

text \<open>
  The value of \<^verbatim>\<open>get_value_by_xpath\<close> in the shape the source supposes: None, or a
  list of dictionaries. A port mapping's entries become label values (any scalar), a
  radio's entries become gauge values (a number, or \<open>None\<close> for a JSON null).
\<close>

type_synonym port_mapping = "string \<rightharpoonup> pyval"

type_synonym radio = "string \<rightharpoonup> real option"

text \<open>
  The answer of \<^verbatim>\<open>requests.get\<close>: its status code and what \<^verbatim>\<open>resp.json()\<close>
  gives (a dictionary, or an exception for a body that is not JSON).
\<close>

record response =
  status_code :: nat
  json :: "(string \<rightharpoonup> string) result"

section \<open>The registry, the globals and the world\<close>

text \<open>
  A labelled gauge maps the tuple of its label values (in the order of its label names)
  to the value of that series: \<^verbatim>\<open>clear()\<close> empties the map,
  \<^verbatim>\<open>labels(...)\<close> makes the series of the tuple, with value 0, when there is none,
  and \<^verbatim>\<open>set(v)\<close> stores \<^verbatim>\<open>float(v)\<close> in it, which raises a TypeError for
  \<open>None\<close>. An unlabelled gauge is one number, 0 until it is set. An \<^verbatim>\<open>Info\<close> is
  absent until \<^verbatim>\<open>info(...)\<close> replaces it.
\<close>

type_synonym family = "string list \<rightharpoonup> real"

definition labels :: "string list \<Rightarrow> family \<Rightarrow> family" where
  "labels ls g = (case g ls of None \<Rightarrow> g(ls \<mapsto> 0) | Some v \<Rightarrow> g)"

text \<open>\<^verbatim>\<open>g.labels(ls).set(v)\<close>.\<close>

definition labels_set :: "string list \<Rightarrow> real option \<Rightarrow> family \<Rightarrow> unit result \<times> family" where
  "labels_set ls v g =
     (case v of
        None \<Rightarrow> (Raises (Exception ''TypeError''), labels ls g)
      | Some x \<Rightarrow> (Returns (), (labels ls g)(ls \<mapsto> x)))"

datatype float_val = NaN | Finite real

datatype call_name =
    Login | Get_device_info | Get_hosts | Get_value_by_xpath string | Requests_get
  | Speedtest_init | Get_best_server | Download | Upload | Ping | Sleep

datatype log_line =
    Error_fetching_public_IP string
  | Speed_Test real real real
  | Error_running_speed_test string
  | Ping_to_Google real
  | Error_pinging_google string
  | Error_collecting_port_mappings string
  | No_WiFi_radios_found
  | Error_collecting_WiFi_stats string
  | Device_info_lines device_info
  | Last_metrics_pull real
  | Next_metrics_pull real
  | An_error_occurred_while_retrieving_data string

record state =
  device_uptime_gauge :: real
  device_reboot_count_gauge :: real
  connected_devices_gauge :: real
  device_info_gauge :: family
  device_status_gauge :: family
  device_lease_gauge :: family
  modem_info :: "(string \<times> string) list option"
  public_ip_info :: "(string \<times> string) list option"
  speedtest_download_gauge :: real
  speedtest_upload_gauge :: real
  speedtest_ping_gauge :: real
  google_ping_gauge :: float_val
  port_mapping_gauge :: family
  wifi_radio_signal_gauge :: family
  wifi_radio_channel_gauge :: family
  last_speedtest_time :: real
  last_pull_time :: "real option"
  next_pull_time :: "real option"
  clock :: real
  io :: "(call_name \<times> real) list"
  stdout :: "log_line list"

text \<open>
  \<open>clock\<close> is the time of day in seconds (\<^verbatim>\<open>time.time()\<close>,
  \<^verbatim>\<open>datetime.now()\<close>); \<open>io\<close> lists the calls to collaborators made so far, each
  with the time it was issued; \<open>stdout\<close> lists what was printed.
\<close>

definition initial_state :: "real \<Rightarrow> state" where
  "initial_state t0 =
     \<lparr> device_uptime_gauge = 0, device_reboot_count_gauge = 0, connected_devices_gauge = 0,
       device_info_gauge = Map.empty, device_status_gauge = Map.empty,
       device_lease_gauge = Map.empty, modem_info = None, public_ip_info = None,
       speedtest_download_gauge = 0, speedtest_upload_gauge = 0, speedtest_ping_gauge = 0,
       google_ping_gauge = Finite 0, port_mapping_gauge = Map.empty,
       wifi_radio_signal_gauge = Map.empty, wifi_radio_channel_gauge = Map.empty,
       last_speedtest_time = 0, last_pull_time = None, next_pull_time = None,
       clock = t0, io = [], stdout = [] \<rparr>"

definition speedtest_interval_seconds :: real where
  "speedtest_interval_seconds = 3600"


text \<open>Awaiting a collaborator: the call is issued now, time passes, the outcome is known.\<close>

definition await :: "call_name \<Rightarrow> 'a call \<Rightarrow> state \<Rightarrow> 'a result \<times> state" where
  "await c r s = (snd r, s\<lparr>clock := clock s + fst r, io := io s @ [(c, clock s)]\<rparr>)"

definition print :: "log_line \<Rightarrow> state \<Rightarrow> state" where
  "print l s = s\<lparr>stdout := stdout s @ [l]\<rparr>"

text \<open>
  Sequencing inside a function body: an exception raised by the first part skips the rest
  and propagates with the state reached so far.
\<close>

definition and_then ::
  "'a result \<times> state \<Rightarrow> ('a \<Rightarrow> state \<Rightarrow> 'b result \<times> state) \<Rightarrow> 'b result \<times> state" where
  "and_then m f = (case m of (Raises x, s) \<Rightarrow> (Raises x, s) | (Returns v, s) \<Rightarrow> f v s)"

text \<open>\<^verbatim>\<open>for x in xs: body\<close>: an exception raised by the body ends the loop.\<close>

fun for_each ::
  "('a \<Rightarrow> state \<Rightarrow> unit result \<times> state) \<Rightarrow> 'a list \<Rightarrow> state \<Rightarrow> unit result \<times> state" where
  "for_each body [] s = (Returns (), s)"
| "for_each body (x # xs) s = and_then (body x s) (\<lambda>_ s'. for_each body xs s')"

text \<open>
  \<^verbatim>\<open>except Exception as e: print(...)\<close>: an \<open>Exception\<close> is printed and the
  function returns \<open>v\<close>; anything else keeps propagating.
\<close>

definition except_Exception ::
  "exn \<Rightarrow> (string \<Rightarrow> log_line) \<Rightarrow> 'a \<Rightarrow> state \<Rightarrow> 'a result \<times> state" where
  "except_Exception x line v s =
     (case x of
        Exception m \<Rightarrow> (Returns v, print (line m) s)
      | BaseException m \<Rightarrow> (Raises x, s))"

definition dict_get :: "(string \<rightharpoonup> 'v) \<Rightarrow> string \<Rightarrow> 'v \<Rightarrow> 'v" where
  "dict_get d k dflt = (case d k of None \<Rightarrow> dflt | Some v \<Rightarrow> v)"

text \<open>\<^verbatim>\<open>not xs\<close> for the value of an XPath: None and the empty list are false.\<close>

definition falsy :: "'a list option \<Rightarrow> bool" where
  "falsy x = (case x of None \<Rightarrow> True | Some xs \<Rightarrow> xs = [])"

definition items :: "'a list option \<Rightarrow> 'a list" where
  "items x = (case x of None \<Rightarrow> [] | Some xs \<Rightarrow> xs)"

section \<open>The inputs of one loop iteration\<close>

record device_env =
  login :: "unit call"
  get_device_info :: "device_info call"
  get_hosts :: "host list call"
  port_mappings_xpath :: "port_mapping list option call"
  wifi_radios_xpath :: "radio list option call"
  requests_get :: "response call"

record speedtest_env =
  speedtest_init :: "unit call"
  get_best_server :: "unit call"
  download :: "real call"
  upload :: "real call"
  results_ping :: real

text \<open>
  What \<^verbatim>\<open>ping3.ping\<close> returns: the delay in seconds, \<^verbatim>\<open>None\<close> when no reply came
  within the timeout, \<^verbatim>\<open>False\<close> when the host is unknown or cannot be reached.
\<close>

datatype ping_value = Delay real | Ping_None | Ping_False

record iter_env =
  dev :: device_env
  png :: "ping_value call"
  spd :: speedtest_env

section \<open>Helper functions (lines 98--199)\<close>

text \<open>
  \<^verbatim>\<open>fetch_public_ip\<close>: \<^verbatim>\<open>raise_for_status\<close> raises for a status code from 400 to
  599; every \<open>Exception\<close> is printed and turned into None.
\<close>

definition fetch_public_ip :: "response call \<Rightarrow> state \<Rightarrow> string option result \<times> state" where
  "fetch_public_ip r s =
     (case await Requests_get r s of
        (Raises x, s1) \<Rightarrow> except_Exception x Error_fetching_public_IP None s1
      | (Returns resp, s1) \<Rightarrow>
          if 400 \<le> status_code resp \<and> status_code resp < 600
          then except_Exception (Exception ''HTTPError'') Error_fetching_public_IP None s1
          else (case json resp of
                  Raises x \<Rightarrow> except_Exception x Error_fetching_public_IP None s1
                | Returns d \<Rightarrow> (Returns (d ''ip''), s1)))"

definition run_speedtest_try :: "speedtest_env \<Rightarrow> state \<Rightarrow> unit result \<times> state" where
  "run_speedtest_try e s =
     and_then (await Speedtest_init (speedtest_init e) s) (\<lambda>_ s1.
     and_then (await Get_best_server (get_best_server e) s1) (\<lambda>_ s2.
     and_then (await Download (download e) s2) (\<lambda>d s3.
     and_then (await Upload (upload e) s3) (\<lambda>u s4.
       let download_speed = d / 1000000;
           upload_speed = u / 1000000;
           ping_ms = results_ping e
       in (Returns (),
           print (Speed_Test download_speed upload_speed ping_ms)
             (s4\<lparr>speedtest_download_gauge := download_speed,
                 speedtest_upload_gauge := upload_speed,
                 speedtest_ping_gauge := ping_ms\<rparr>))))))"

definition run_speedtest :: "speedtest_env \<Rightarrow> state \<Rightarrow> unit result \<times> state" where
  "run_speedtest e s =
     (case run_speedtest_try e s of
        (Raises x, s') \<Rightarrow> except_Exception x Error_running_speed_test () s'
      | (Returns v, s') \<Rightarrow> (Returns v, s'))"

text \<open>
  \<^verbatim>\<open>ping_google\<close>: the test of line 133 is \<^verbatim>\<open>ping_time is not None\<close>, which
  \<^verbatim>\<open>False\<close> passes as a delay does; \<^verbatim>\<open>False * 1000\<close> is 0. The handler prints
  and sets the gauge to \<^verbatim>\<open>float('nan')\<close>.
\<close>

definition ping_google :: "ping_value call \<Rightarrow> state \<Rightarrow> unit result \<times> state" where
  "ping_google r s =
     (case await Ping r s of
        (Raises x, s1) \<Rightarrow>
          (case x of
             Exception m \<Rightarrow>
               (Returns (), (print (Error_pinging_google m) s1)\<lparr>google_ping_gauge := NaN\<rparr>)
           | BaseException m \<Rightarrow> (Raises x, s1))
      | (Returns ping_time, s1) \<Rightarrow>
          (case ping_time of
             Delay t \<Rightarrow>
               (Returns (),
                print (Ping_to_Google (t * 1000)) (s1\<lparr>google_ping_gauge := Finite (t * 1000)\<rparr>))
           | Ping_False \<Rightarrow>
               (Returns (), print (Ping_to_Google 0) (s1\<lparr>google_ping_gauge := Finite 0\<rparr>))
           | Ping_None \<Rightarrow> (Returns (), s1\<lparr>google_ping_gauge := NaN\<rparr>)))"

definition port_mapping_labels :: "port_mapping \<Rightarrow> string list" where
  "port_mapping_labels mapping =
     (let external_port = dict_get mapping ''external_port'' (PyStr ''unknown'');
          internal_port = dict_get mapping ''internal_port'' (PyStr ''unknown'');
          protocol = dict_get mapping ''protocol'' (PyStr ''unknown'');
          enabled = (if truthy (dict_get mapping ''enabled'' (PyBool False))
                     then ''active'' else ''inactive'')
      in [py_str external_port, py_str internal_port, py_str protocol, enabled])"

definition set_port_mapping :: "state \<Rightarrow> port_mapping \<Rightarrow> state" where
  "set_port_mapping s mapping =
     s\<lparr>port_mapping_gauge := (port_mapping_gauge s)(port_mapping_labels mapping \<mapsto> 1)\<rparr>"

definition collect_port_mappings ::
  "port_mapping list option call \<Rightarrow> state \<Rightarrow> unit result \<times> state" where
  "collect_port_mappings r s =
     (case await (Get_value_by_xpath ''Device/NAT/PortMappings'') r s of
        (Raises x, s1) \<Rightarrow> except_Exception x Error_collecting_port_mappings () s1
      | (Returns port_mappings, s1) \<Rightarrow>
          let s2 = s1\<lparr>port_mapping_gauge := Map.empty\<rparr>
          in if falsy port_mappings then (Returns (), s2)
             else (Returns (), foldl set_port_mapping s2 (items port_mappings)))"

text \<open>
  The body of \<^verbatim>\<open>for i, radio in enumerate(wifi_radios)\<close> (lines 189--196): the
  signal is set before the channel.
\<close>

definition set_radio :: "nat \<times> radio \<Rightarrow> state \<Rightarrow> unit result \<times> state" where
  "set_radio ir s =
     (let i = fst ir; radio = snd ir;
          channel = dict_get radio ''channel'' (Some 0);
          signal_dbm = dict_get radio ''signal_strength'' (Some 0)
      in and_then
           (case labels_set [digits_of i] signal_dbm (wifi_radio_signal_gauge s) of
              (r, g) \<Rightarrow> (r, s\<lparr>wifi_radio_signal_gauge := g\<rparr>))
           (\<lambda>_ s1.
              case labels_set [digits_of i] channel (wifi_radio_channel_gauge s1) of
                (r, g) \<Rightarrow> (r, s1\<lparr>wifi_radio_channel_gauge := g\<rparr>)))"

text \<open>
  The \<^verbatim>\<open>try\<close> block of \<^verbatim>\<open>collect_wifi_stats\<close> (lines 179--196) and its handler:
  an \<open>Exception\<close> of the read or of the loop is printed.
\<close>

definition collect_wifi_stats_try ::
  "radio list option call \<Rightarrow> state \<Rightarrow> unit result \<times> state" where
  "collect_wifi_stats_try r s =
     and_then (await (Get_value_by_xpath ''Device/WiFi/Radios'') r s) (\<lambda>wifi_radios s1.
       if falsy wifi_radios then (Returns (), print No_WiFi_radios_found s1)
       else
         let s2 = s1\<lparr>wifi_radio_signal_gauge := Map.empty,
                     wifi_radio_channel_gauge := Map.empty\<rparr>
         in for_each set_radio (enumerate 0 (items wifi_radios)) s2)"

definition collect_wifi_stats :: "radio list option call \<Rightarrow> state \<Rightarrow> unit result \<times> state" where
  "collect_wifi_stats r s =
     (case collect_wifi_stats_try r s of
        (Raises x, s') \<Rightarrow> except_Exception x Error_collecting_WiFi_stats () s'
      | (Returns v, s') \<Rightarrow> (Returns v, s'))"

section \<open>Main metrics collection (lines 204--310)\<close>

definition info_labels :: "host \<Rightarrow> string list" where
  "info_labels d =
     [or_unknown (phys_address d), or_unknown (host_alias d), or_unknown (ip_address d),
      or_unknown (host_name d), if active d then ''Active'' else ''Inactive'',
      or_unknown (interface_type d), str_int_opt (lease_time_remaining d),
      or_unknown (layer1_interface d), or_unknown (layer3_interface d),
      if blacklisted d then ''True'' else ''False'',
      str_list_or_empty (blacklisted_schedule d)]"

text \<open>\<^verbatim>\<open>device_lease_gauge.labels(mac_address=..., metric=...).set(v)\<close>.\<close>

definition set_lease :: "string \<Rightarrow> string \<Rightarrow> int option \<Rightarrow> state \<Rightarrow> unit result \<times> state" where
  "set_lease mac metric v s =
     (case labels_set [mac, metric] (map_option real_of_int v) (device_lease_gauge s) of
        (r, g) \<Rightarrow> (r, s\<lparr>device_lease_gauge := g\<rparr>))"

text \<open>
  The body of \<^verbatim>\<open>for d in devices\<close> (lines 256--283): the status series, the
  three lease series, the info series. \<^verbatim>\<open>d.id\<close> is read first; each
  \<^verbatim>\<open>set\<close> of a lease number can raise.
\<close>

definition set_device :: "host \<Rightarrow> state \<Rightarrow> unit result \<times> state" where
  "set_device d s =
     (case host_id d of
        None \<Rightarrow> (Raises (Exception ''AttributeError''), s)
      | Some mac \<Rightarrow>
          let s1 = s\<lparr>device_status_gauge :=
                      (device_status_gauge s)
                        ([mac, str_opt (name d), str_opt (host_name d),
                          str_opt (interface_type d)] \<mapsto> (if active d then 1 else 0))\<rparr>
          in and_then (set_lease mac ''lease_start'' (lease_start d) s1) (\<lambda>_ s2.
             and_then (set_lease mac ''lease_duration'' (lease_duration d) s2) (\<lambda>_ s3.
             and_then (set_lease mac ''lease_remaining'' (lease_time_remaining d) s3) (\<lambda>_ s4.
               (Returns (),
                s4\<lparr>device_info_gauge :=
                     (device_info_gauge s4)(info_labels d \<mapsto> (if active d then 1 else 0))\<rparr>)))))"

text \<open>
  Lines 225--242: the printed lines, the two scalars and the modem's info record. A
  \<^verbatim>\<open>set\<close> of \<open>None\<close> raises and leaves what follows undone.
\<close>

definition set_device_info :: "device_info \<Rightarrow> state \<Rightarrow> unit result \<times> state" where
  "set_device_info device_info s =
     (let s1 = print (Device_info_lines device_info) s
      in case up_time device_info of
           None \<Rightarrow> (Raises (Exception ''TypeError''), s1)
         | Some u \<Rightarrow>
             let s2 = s1\<lparr>device_uptime_gauge := real_of_int u\<rparr>
             in (case reboot_count device_info of
                   None \<Rightarrow> (Raises (Exception ''TypeError''), s2)
                 | Some n \<Rightarrow>
                     (Returns (),
                      s2\<lparr>device_reboot_count_gauge := real_of_int n,
                         modem_info := Some
                           [(''device_id'', mac_address device_info),
                            (''build_date'', build_date device_info),
                            (''model_name'', model_name device_info),
                            (''serial_number'', serial_number device_info),
                            (''software_version'', software_version device_info)]\<rparr>)))"

text \<open>Lines 248--283: the count of active hosts, the three clears and the loop.\<close>

definition set_devices :: "host list \<Rightarrow> state \<Rightarrow> unit result \<times> state" where
  "set_devices devices s =
     (let active_devices = filter active devices;
          s1 = s\<lparr>connected_devices_gauge := real (length active_devices)\<rparr>;
          s2 = s1\<lparr>device_status_gauge := Map.empty,
                  device_lease_gauge := Map.empty,
                  device_info_gauge := Map.empty\<rparr>
      in for_each set_device devices s2)"

text \<open>Lines 299--307: the public IP and the pull times.\<close>

definition set_public_ip :: "int \<Rightarrow> string option \<Rightarrow> state \<Rightarrow> state" where
  "set_public_ip collection_interval public_ip s =
     (let s1 = (case public_ip of
                  None \<Rightarrow> s
                | Some ip \<Rightarrow> if ip = [] then s else s\<lparr>public_ip_info := Some [(''public_ip'', ip)]\<rparr>);
          now = clock s1;
          next_pull = now + real_of_int collection_interval
      in print (Next_metrics_pull next_pull)
           (print (Last_metrics_pull now)
              (s1\<lparr>last_pull_time := Some now, next_pull_time := Some next_pull\<rparr>)))"

text \<open>Lines 288--307: port mappings, Wi-Fi, public IP, pull times.\<close>

definition port_mappings_wifi_public_ip ::
  "int \<Rightarrow> device_env \<Rightarrow> state \<Rightarrow> unit result \<times> state" where
  "port_mappings_wifi_public_ip collection_interval e s =
     and_then (collect_port_mappings (port_mappings_xpath e) s) (\<lambda>_ s4.
     and_then (collect_wifi_stats (wifi_radios_xpath e) s4) (\<lambda>_ s5.
     and_then (fetch_public_ip (requests_get e) s5) (\<lambda>public_ip s6.
       (Returns (), set_public_ip collection_interval public_ip s6))))"

text \<open>
  The \<^verbatim>\<open>try\<close> block of \<^verbatim>\<open>collect_sagemcom_metrics\<close> (lines 218--307): login,
  device info and its scalars, hosts and their series, then the rest. Every step sits in
  the same block, so an exception at one of the first three calls, at the scalars or in
  the loop over the hosts skips all that follows. Opening and closing the client
  (\<^verbatim>\<open>async with\<close>, outside the \<^verbatim>\<open>try\<close>) calls nothing upstream and is taken
  to succeed.
\<close>

definition collect_sagemcom_metrics_try ::
  "int \<Rightarrow> device_env \<Rightarrow> state \<Rightarrow> unit result \<times> state" where
  "collect_sagemcom_metrics_try collection_interval e s =
     and_then (await Login (login e) s) (\<lambda>_ s1.
     and_then (await Get_device_info (get_device_info e) s1) (\<lambda>device_info s2.
     and_then (set_device_info device_info s2) (\<lambda>_ s2'.
     and_then (await Get_hosts (get_hosts e) s2') (\<lambda>devices s3.
     and_then (set_devices devices s3) (\<lambda>_ s4.
       port_mappings_wifi_public_ip collection_interval e s4)))))"

definition collect_sagemcom_metrics ::
  "int \<Rightarrow> device_env \<Rightarrow> state \<Rightarrow> unit result \<times> state" where
  "collect_sagemcom_metrics collection_interval e s =
     (case collect_sagemcom_metrics_try collection_interval e s of
        (Raises x, s') \<Rightarrow> except_Exception x An_error_occurred_while_retrieving_data () s'
      | (Returns v, s') \<Rightarrow> (Returns v, s'))"

section \<open>The loop (lines 315--331)\<close>

text \<open>Lines 325--328: the speed test runs when the clock says it is due.\<close>

definition possibly_run_speedtest :: "speedtest_env \<Rightarrow> state \<Rightarrow> unit result \<times> state" where
  "possibly_run_speedtest e s =
     (let current_time = clock s
      in if current_time - last_speedtest_time s \<ge> speedtest_interval_seconds
         then and_then (run_speedtest e s)
                (\<lambda>_ s'. (Returns (), s'\<lparr>last_speedtest_time := current_time\<rparr>))
         else (Returns (), s))"

text \<open>\<^verbatim>\<open>asyncio.sleep(d)\<close> returns at once for \<open>d \<le> 0\<close>.\<close>

definition asyncio_sleep :: "int \<Rightarrow> state \<Rightarrow> unit result \<times> state" where
  "asyncio_sleep d s = await Sleep (max 0 (real_of_int d), Returns ()) s"

text \<open>One pass through the body of \<^verbatim>\<open>while True\<close>.\<close>

definition loop_body :: "int \<Rightarrow> iter_env \<Rightarrow> state \<Rightarrow> unit result \<times> state" where
  "loop_body collection_interval e s =
     and_then (collect_sagemcom_metrics collection_interval (dev e) s) (\<lambda>_ s1.
     and_then (ping_google (png e) s1) (\<lambda>_ s2.
     and_then (possibly_run_speedtest (spd e) s2) (\<lambda>_ s3.
       asyncio_sleep collection_interval s3)))"

text \<open>
  The loop never ends by itself. The model runs it for the iterations whose inputs are
  given and stops earlier only when an exception leaves the body.
\<close>

fun update_metrics_loop :: "int \<Rightarrow> iter_env list \<Rightarrow> state \<Rightarrow> unit result \<times> state" where
  "update_metrics_loop collection_interval [] s = (Returns (), s)"
| "update_metrics_loop collection_interval (e # es) s =
     (case loop_body collection_interval e s of
        (Raises x, s') \<Rightarrow> (Raises x, s')
      | (Returns _, s') \<Rightarrow> update_metrics_loop collection_interval es s')"

section \<open>Observations\<close>

text \<open>
  The label values of a host's status series; \<open>ident\<close> is the value of \<^verbatim>\<open>d.id\<close>
  where it has one.
\<close>

definition ident :: "host \<Rightarrow> string" where
  "ident d = (case host_id d of None \<Rightarrow> [] | Some mac \<Rightarrow> mac)"

definition status_labels :: "host \<Rightarrow> string list" where
  "status_labels d = [ident d, str_opt (name d), str_opt (host_name d), str_opt (interface_type d)]"

text \<open>A host whose series the loop over the hosts can set: nothing it reads is missing.\<close>

definition host_ok :: "host \<Rightarrow> bool" where
  "host_ok d =
     (host_id d \<noteq> None \<and> lease_start d \<noteq> None \<and> lease_duration d \<noteq> None \<and>
      lease_time_remaining d \<noteq> None)"

text \<open>A device info whose two numbers can be set.\<close>

definition info_ok :: "device_info \<Rightarrow> bool" where
  "info_ok di = (up_time di \<noteq> None \<and> reboot_count di \<noteq> None)"

text \<open>
  The states in which lines 225--242 have run and in which \<^verbatim>\<open>get_hosts\<close> has
  returned: the calls up to there have been awaited.
\<close>

definition info_read :: "device_env \<Rightarrow> device_info \<Rightarrow> state \<Rightarrow> state" where
  "info_read e di s =
     (snd (set_device_info di s))
       \<lparr>clock := clock s + fst (login e) + fst (get_device_info e),
        io := io s @ [(Login, clock s), (Get_device_info, clock s + fst (login e))]\<rparr>"

definition hosts_read :: "device_env \<Rightarrow> device_info \<Rightarrow> state \<Rightarrow> state" where
  "hosts_read e di s =
     (snd (set_device_info di s))
       \<lparr>clock := clock s + fst (login e) + fst (get_device_info e) + fst (get_hosts e),
        io := io s @ [(Login, clock s), (Get_device_info, clock s + fst (login e)),
                      (Get_hosts, clock s + fst (login e) + fst (get_device_info e))]\<rparr>"



text \<open>The times at which a collaborator was called.\<close>

definition times_of :: "call_name \<Rightarrow> (call_name \<times> real) list \<Rightarrow> real list" where
  "times_of c calls = map snd (filter (\<lambda>x. fst x = c) calls)"


text \<open>An outcome that \<^verbatim>\<open>except Exception\<close> handles: a value or an \<open>Exception\<close>.\<close>

definition catchable :: "'a result \<Rightarrow> bool" where
  "catchable r = (case r of Raises (BaseException m) \<Rightarrow> False | _ \<Rightarrow> True)"

definition catchable_response :: "response result \<Rightarrow> bool" where
  "catchable_response r =
     (case r of Returns resp \<Rightarrow> catchable (json resp) | _ \<Rightarrow> catchable r)"

definition only_Exceptions :: "iter_env \<Rightarrow> bool" where
  "only_Exceptions e =
     (catchable (snd (login (dev e))) \<and> catchable (snd (get_device_info (dev e))) \<and>
      catchable (snd (get_hosts (dev e))) \<and> catchable (snd (port_mappings_xpath (dev e))) \<and>
      catchable (snd (wifi_radios_xpath (dev e))) \<and>
      catchable_response (snd (requests_get (dev e))) \<and>
      catchable (snd (png e)) \<and>
      catchable (snd (speedtest_init (spd e))) \<and> catchable (snd (get_best_server (spd e))) \<and>
      catchable (snd (download (spd e))) \<and> catchable (snd (upload (spd e))))"

text \<open>
  A lookup that fails: the request raises, the status is an error, or the body is not JSON.
\<close>

definition lookup_fails :: "response call \<Rightarrow> bool" where
  "lookup_fails r =
     (case snd r of
        Raises x \<Rightarrow> True
      | Returns resp \<Rightarrow>
          (400 \<le> status_code resp \<and> status_code resp < 600) \<or>
          (case json resp of Raises x \<Rightarrow> True | Returns d \<Rightarrow> False))"

text \<open>The seconds one run of the speed test takes: the calls up to the first that raises.\<close>

definition run_speedtest_seconds :: "speedtest_env \<Rightarrow> real" where
  "run_speedtest_seconds e =
     fst (speedtest_init e) +
     (case snd (speedtest_init e) of Raises x \<Rightarrow> 0 | Returns a \<Rightarrow>
        fst (get_best_server e) +
        (case snd (get_best_server e) of Raises x \<Rightarrow> 0 | Returns b \<Rightarrow>
           fst (download e) +
           (case snd (download e) of Raises x \<Rightarrow> 0 | Returns d \<Rightarrow> fst (upload e))))"

text \<open>
  The states an iteration passes through: after the device poll, after the probe (where
  \<^verbatim>\<open>time.time()\<close> is read for the speed-test test), and after the speed-test step.
\<close>

definition after_device_poll :: "int \<Rightarrow> iter_env \<Rightarrow> state \<Rightarrow> state" where
  "after_device_poll ci e s = snd (collect_sagemcom_metrics ci (dev e) s)"

definition at_speedtest_test :: "int \<Rightarrow> iter_env \<Rightarrow> state \<Rightarrow> state" where
  "at_speedtest_test ci e s = snd (ping_google (png e) (after_device_poll ci e s))"

definition after_speedtest :: "int \<Rightarrow> iter_env \<Rightarrow> state \<Rightarrow> state" where
  "after_speedtest ci e s = snd (possibly_run_speedtest (spd e) (at_speedtest_test ci e s))"

text \<open>The test of line 326 in a state.\<close>

definition speedtest_due :: "state \<Rightarrow> bool" where
  "speedtest_due s = (clock s - last_speedtest_time s \<ge> speedtest_interval_seconds)"

text \<open>No call takes a negative time.\<close>

definition takes_time :: "iter_env \<Rightarrow> bool" where
  "takes_time e =
     (0 \<le> fst (login (dev e)) \<and> 0 \<le> fst (get_device_info (dev e)) \<and>
      0 \<le> fst (get_hosts (dev e)) \<and> 0 \<le> fst (port_mappings_xpath (dev e)) \<and>
      0 \<le> fst (wifi_radios_xpath (dev e)) \<and> 0 \<le> fst (requests_get (dev e)) \<and>
      0 \<le> fst (png e) \<and>
      0 \<le> fst (speedtest_init (spd e)) \<and> 0 \<le> fst (get_best_server (spd e)) \<and>
      0 \<le> fst (download (spd e)) \<and> 0 \<le> fst (upload (spd e)))"

section \<open>Example inputs\<close>

definition example_device_info :: device_info where
  "example_device_info =
     \<lparr>mac_address = ''AA:BB:CC:00:00:01'', build_date = ''2024-01-01'',
      up_time = Some 100, reboot_count = Some 3, model_name = ''F3896'', serial_number = ''SN1'',
      software_version = ''1.0''\<rparr>"

definition host_A :: host where
  "host_A =
     \<lparr>host_id = Some ''A'', name = Some ''laptop'', host_name = Some ''laptop'',
      interface_type = Some ''WiFi'', active = True, lease_start = Some 10,
      lease_duration = Some 3600, lease_time_remaining = Some 1800, phys_address = Some ''a'', host_alias = None,
      ip_address = Some ''192.168.0.2'', layer1_interface = None, layer3_interface = None,
      blacklisted = False, blacklisted_schedule = None\<rparr>"

definition host_B :: host where
  "host_B =
     \<lparr>host_id = Some ''B'', name = Some ''printer'', host_name = None,
      interface_type = Some ''Ethernet'', active = False, lease_start = Some 20,
      lease_duration = Some 3600, lease_time_remaining = Some 0, phys_address = Some ''b'',
      host_alias = None, ip_address = None, layer1_interface = None, layer3_interface = None,
      blacklisted = False, blacklisted_schedule = Some []\<rparr>"

text \<open>
  A host whose lease has no start, and a second entry with the identifier of host A under
  another name.
\<close>

definition host_C :: host where
  "host_C =
     \<lparr>host_id = Some ''C'', name = Some ''camera'', host_name = None,
      interface_type = Some ''WiFi'', active = True, lease_start = None,
      lease_duration = Some 3600, lease_time_remaining = Some 900, phys_address = Some ''c'',
      host_alias = None, ip_address = None, layer1_interface = None, layer3_interface = None,
      blacklisted = False, blacklisted_schedule = None\<rparr>"

definition host_A_phone :: host where
  "host_A_phone = host_A\<lparr>name := Some ''phone''\<rparr>"

text \<open>
  A router that answers every call in one second: the hosts given, no port mappings, no
  radios; the public-IP lookup answers with the address given.
\<close>

definition router :: "host list \<Rightarrow> string \<Rightarrow> device_env" where
  "router hosts ip =
     \<lparr>login = (1, Returns ()), get_device_info = (1, Returns example_device_info),
      get_hosts = (1, Returns hosts), port_mappings_xpath = (1, Returns None),
      wifi_radios_xpath = (1, Returns None),
      requests_get = (1, Returns \<lparr>status_code = 200, json = Returns [''ip'' \<mapsto> ip]\<rparr>)\<rparr>"

text \<open>A speed test of 40 seconds: 94 Mbit/s down, 20 Mbit/s up.\<close>

definition speedtest_40s :: speedtest_env where
  "speedtest_40s =
     \<lparr>speedtest_init = (2, Returns ()), get_best_server = (3, Returns ()),
      download = (20, Returns 94000000), upload = (15, Returns 20000000),
      results_ping = 12\<rparr>"

text \<open>The router answers the login and the device info; the host table times out.\<close>

definition router_hosts_time_out :: device_env where
  "router_hosts_time_out =
     (router [] ''203.0.113.7'')\<lparr>get_hosts := (30, Raises (Exception ''timeout''))\<rparr>"


text \<open>A radio on channel 6 with -40 dBm, and a port mapping of port 80.\<close>

definition radio_0 :: radio where
  "radio_0 = [''channel'' \<mapsto> Some 6, ''signal_strength'' \<mapsto> Some (- 40)]"


definition mapping_80 :: port_mapping where
  "mapping_80 =
     [''external_port'' \<mapsto> PyInt 80, ''internal_port'' \<mapsto> PyInt 8080,
      ''protocol'' \<mapsto> PyStr ''tcp'', ''enabled'' \<mapsto> PyBool True]"

text \<open>
  Iterations of the loop: the router with host A, a probe answered in 20 ms, the 40-second
  speed test. In the second one the public-IP lookup times out.
\<close>

definition iteration :: iter_env where
  "iteration =
     \<lparr>dev = router [host_A] ''203.0.113.7'', png = (1, Returns (Delay (1 / 50))),
      spd = speedtest_40s\<rparr>"

definition lookup_times_out :: iter_env where
  "lookup_times_out =
     iteration\<lparr>dev := (router [host_A] ''203.0.113.7'')
       \<lparr>requests_get := (5, Raises (Exception ''timeout''))\<rparr>\<rparr>"

text \<open>An iteration in which the host table, the probe and the download all fail.\<close>

definition everything_fails :: iter_env where
  "everything_fails =
     \<lparr>dev = router_hosts_time_out, png = (1, Raises (Exception ''unreachable'')),
      spd = speedtest_40s\<lparr>download := (20, Raises (Exception ''no servers''))\<rparr>\<rparr>"

section \<open>What each collector does to the state\<close>

lemma and_then_alt:
  "and_then m f = (case fst m of Raises x \<Rightarrow> (Raises x, snd m) | Returns v \<Rightarrow> f v (snd m))"
  by (cases m) (simp add: and_then_def split: result.splits)

lemma await_fst: "fst (await c r s) = snd r"
  by (simp add: await_def)

lemma await_snd: "snd (await c r s) = s\<lparr>clock := clock s + fst r, io := io s @ [(c, clock s)]\<rparr>"
  by (simp add: await_def)

lemma times_of_append: "times_of c (xs @ ys) = times_of c xs @ times_of c ys"
  by (simp add: times_of_def)

lemma times_of_Cons:
  "times_of c ((c', t) # xs) = (if c' = c then t # times_of c xs else times_of c xs)"
  by (simp add: times_of_def)

lemma times_of_Nil: "times_of c [] = []"
  by (simp add: times_of_def)

lemmas times_of_simps = times_of_append times_of_Cons times_of_Nil

text \<open>Loops: what every pass keeps, the loop keeps; what the loop raises, a pass raised.\<close>

lemma for_each_preserves:
  assumes "\<And>x s. F (snd (body x s)) = F s"
  shows "F (snd (for_each body xs s)) = F s"
  by (induction xs arbitrary: s) (simp_all add: and_then_alt assms split: result.splits)

lemma for_each_raises:
  "fst (for_each body xs s) = Raises x \<Longrightarrow> \<exists>y s'. y \<in> set xs \<and> fst (body y s') = Raises x"
proof (induction xs arbitrary: s)
  case Nil
  then show ?case by simp
next
  case (Cons a xs)
  show ?case
  proof (cases "fst (body a s)")
    case (Returns v)
    with Cons.prems have "fst (for_each body xs (snd (body a s))) = Raises x"
      by (simp add: and_then_alt)
    from Cons.IH [OF this] show ?thesis by auto
  next
    case (Raises y)
    with Cons.prems have "fst (body a s) = Raises x" by (simp add: and_then_alt)
    then show ?thesis by auto
  qed
qed

lemma for_each_returns:
  "(\<And>y s'. y \<in> set xs \<Longrightarrow> fst (body y s') = Returns ()) \<Longrightarrow> fst (for_each body xs s) = Returns ()"
  by (induction xs arbitrary: s) (simp_all add: and_then_alt)

text \<open>The speed test.\<close>

lemma run_speedtest_try_fst:
  "fst (run_speedtest_try e s) =
     (case snd (speedtest_init e) of Raises x \<Rightarrow> Raises x | Returns a \<Rightarrow>
      (case snd (get_best_server e) of Raises x \<Rightarrow> Raises x | Returns b \<Rightarrow>
       (case snd (download e) of Raises x \<Rightarrow> Raises x | Returns d \<Rightarrow>
        (case snd (upload e) of Raises x \<Rightarrow> Raises x | Returns u \<Rightarrow> Returns ()))))"
  by (simp add: run_speedtest_try_def and_then_alt await_fst Let_def split: result.splits)

lemma run_speedtest_try_frame:
  "clock (snd (run_speedtest_try e s)) = clock s + run_speedtest_seconds e"
  "times_of Speedtest_init (io (snd (run_speedtest_try e s))) = times_of Speedtest_init (io s) @ [clock s]"
  "times_of Login (io (snd (run_speedtest_try e s))) = times_of Login (io s)"
  "times_of Ping (io (snd (run_speedtest_try e s))) = times_of Ping (io s)"
  "times_of Sleep (io (snd (run_speedtest_try e s))) = times_of Sleep (io s)"
  "last_speedtest_time (snd (run_speedtest_try e s)) = last_speedtest_time s"
  "public_ip_info (snd (run_speedtest_try e s)) = public_ip_info s"
  "google_ping_gauge (snd (run_speedtest_try e s)) = google_ping_gauge s"
  "times_of (Get_value_by_xpath ''Device/NAT/PortMappings'') (io (snd (run_speedtest_try e s))) = times_of (Get_value_by_xpath ''Device/NAT/PortMappings'') (io s)"
  "times_of (Get_value_by_xpath ''Device/WiFi/Radios'') (io (snd (run_speedtest_try e s))) = times_of (Get_value_by_xpath ''Device/WiFi/Radios'') (io s)"
  "times_of Requests_get (io (snd (run_speedtest_try e s))) = times_of Requests_get (io s)"
  by (simp_all add: run_speedtest_try_def and_then_alt await_fst await_snd print_def
      run_speedtest_seconds_def times_of_simps Let_def split: result.splits)

lemma run_speedtest_alt:
  "run_speedtest e s =
     (case fst (run_speedtest_try e s) of
        Returns v \<Rightarrow> (Returns v, snd (run_speedtest_try e s))
      | Raises (Exception m) \<Rightarrow>
          (Returns (), print (Error_running_speed_test m) (snd (run_speedtest_try e s)))
      | Raises (BaseException m) \<Rightarrow> (Raises (BaseException m), snd (run_speedtest_try e s)))"
  by (cases "run_speedtest_try e s")
     (simp add: run_speedtest_def except_Exception_def split: result.splits exn.splits)

lemma print_frame:
  "clock (print l s) = clock s" "io (print l s) = io s"
  "last_speedtest_time (print l s) = last_speedtest_time s"
  "public_ip_info (print l s) = public_ip_info s"
  "google_ping_gauge (print l s) = google_ping_gauge s"
  "stdout (print l s) = stdout s @ [l]"
  "connected_devices_gauge (print l s) = connected_devices_gauge s"
  "device_status_gauge (print l s) = device_status_gauge s"
  "device_lease_gauge (print l s) = device_lease_gauge s"
  "device_info_gauge (print l s) = device_info_gauge s"
  "port_mapping_gauge (print l s) = port_mapping_gauge s"
  "wifi_radio_signal_gauge (print l s) = wifi_radio_signal_gauge s"
  "wifi_radio_channel_gauge (print l s) = wifi_radio_channel_gauge s"
  by (simp_all add: print_def)

lemma run_speedtest_fst:
  "catchable (snd (speedtest_init e)) \<Longrightarrow> catchable (snd (get_best_server e)) \<Longrightarrow>
   catchable (snd (download e)) \<Longrightarrow> catchable (snd (upload e)) \<Longrightarrow>
   fst (run_speedtest e s) = Returns ()"
  by (simp add: run_speedtest_alt run_speedtest_try_fst catchable_def
      split: result.splits exn.splits)

lemma run_speedtest_frame:
  "clock (snd (run_speedtest e s)) = clock s + run_speedtest_seconds e"
  "times_of Speedtest_init (io (snd (run_speedtest e s))) = times_of Speedtest_init (io s) @ [clock s]"
  "times_of Login (io (snd (run_speedtest e s))) = times_of Login (io s)"
  "times_of Ping (io (snd (run_speedtest e s))) = times_of Ping (io s)"
  "times_of Sleep (io (snd (run_speedtest e s))) = times_of Sleep (io s)"
  "last_speedtest_time (snd (run_speedtest e s)) = last_speedtest_time s"
  "public_ip_info (snd (run_speedtest e s)) = public_ip_info s"
  "google_ping_gauge (snd (run_speedtest e s)) = google_ping_gauge s"
  "times_of (Get_value_by_xpath ''Device/NAT/PortMappings'') (io (snd (run_speedtest e s))) = times_of (Get_value_by_xpath ''Device/NAT/PortMappings'') (io s)"
  "times_of (Get_value_by_xpath ''Device/WiFi/Radios'') (io (snd (run_speedtest e s))) = times_of (Get_value_by_xpath ''Device/WiFi/Radios'') (io s)"
  "times_of Requests_get (io (snd (run_speedtest e s))) = times_of Requests_get (io s)"
  by (simp_all add: run_speedtest_alt run_speedtest_try_frame print_frame
      split: result.splits exn.splits)

text \<open>The probe.\<close>

lemma ping_google_fst:
  "fst (ping_google r s) =
     (case snd r of Raises (BaseException m) \<Rightarrow> Raises (BaseException m) | _ \<Rightarrow> Returns ())"
  by (simp add: ping_google_def await_def split: result.splits exn.splits ping_value.splits)

lemma ping_google_snd:
  "snd (ping_google r s) =
     s\<lparr>clock := clock s + fst r,
       io := io s @ [(Ping, clock s)],
       stdout := stdout s @
         (case snd r of
            Raises (Exception m) \<Rightarrow> [Error_pinging_google m]
          | Raises (BaseException m) \<Rightarrow> []
          | Returns Ping_None \<Rightarrow> []
          | Returns Ping_False \<Rightarrow> [Ping_to_Google 0]
          | Returns (Delay t) \<Rightarrow> [Ping_to_Google (t * 1000)]),
       google_ping_gauge :=
         (case snd r of
            Raises (Exception m) \<Rightarrow> NaN
          | Raises (BaseException m) \<Rightarrow> google_ping_gauge s
          | Returns Ping_None \<Rightarrow> NaN
          | Returns Ping_False \<Rightarrow> Finite 0
          | Returns (Delay t) \<Rightarrow> Finite (t * 1000))\<rparr>"
  by (simp add: ping_google_def await_def print_def
      split: result.splits exn.splits ping_value.splits)

text \<open>Port mappings.\<close>

lemma foldl_set_port_mapping:
  "foldl set_port_mapping s ms =
     s\<lparr>port_mapping_gauge :=
         foldl (\<lambda>g m. g(port_mapping_labels m \<mapsto> 1)) (port_mapping_gauge s) ms\<rparr>"
  by (induction ms arbitrary: s) (simp_all add: set_port_mapping_def)

lemma collect_port_mappings_fst:
  "fst (collect_port_mappings r s) =
     (case snd r of Raises (BaseException m) \<Rightarrow> Raises (BaseException m) | _ \<Rightarrow> Returns ())"
  by (simp add: collect_port_mappings_def await_def except_Exception_def Let_def
      split: result.splits exn.splits)

lemma collect_port_mappings_snd:
  "snd (collect_port_mappings r s) =
     s\<lparr>clock := clock s + fst r,
       io := io s @ [(Get_value_by_xpath ''Device/NAT/PortMappings'', clock s)],
       stdout := stdout s @
         (case snd r of Raises (Exception m) \<Rightarrow> [Error_collecting_port_mappings m] | _ \<Rightarrow> []),
       port_mapping_gauge :=
         (case snd r of
            Raises x \<Rightarrow> port_mapping_gauge s
          | Returns pm \<Rightarrow> foldl (\<lambda>g m. g(port_mapping_labels m \<mapsto> 1)) Map.empty (items pm))\<rparr>"
  by (simp add: collect_port_mappings_def await_def except_Exception_def print_def
      foldl_set_port_mapping Let_def falsy_def items_def split: result.splits exn.splits option.splits)

text \<open>Wi-Fi: a pass of the loop touches the two Wi-Fi families and nothing else.\<close>

lemma set_radio_frame:
  "connected_devices_gauge (snd (set_radio ir s)) = connected_devices_gauge s"
  "device_status_gauge (snd (set_radio ir s)) = device_status_gauge s"
  "device_lease_gauge (snd (set_radio ir s)) = device_lease_gauge s"
  "device_info_gauge (snd (set_radio ir s)) = device_info_gauge s"
  "public_ip_info (snd (set_radio ir s)) = public_ip_info s"
  "google_ping_gauge (snd (set_radio ir s)) = google_ping_gauge s"
  "last_speedtest_time (snd (set_radio ir s)) = last_speedtest_time s"
  "port_mapping_gauge (snd (set_radio ir s)) = port_mapping_gauge s"
  "clock (snd (set_radio ir s)) = clock s"
  "io (snd (set_radio ir s)) = io s"
  "stdout (snd (set_radio ir s)) = stdout s"
  by (simp_all add: set_radio_def Let_def and_then_alt split: prod.splits result.splits)

lemma set_radio_raises:
  "fst (set_radio ir s) = Raises x \<Longrightarrow> x = Exception ''TypeError''"
  by (auto simp add: set_radio_def Let_def and_then_alt labels_set_def
      split: prod.splits result.splits option.splits)

lemma for_each_set_radio_frame:
  "connected_devices_gauge (snd (for_each set_radio irs s)) = connected_devices_gauge s"
  "device_status_gauge (snd (for_each set_radio irs s)) = device_status_gauge s"
  "device_lease_gauge (snd (for_each set_radio irs s)) = device_lease_gauge s"
  "device_info_gauge (snd (for_each set_radio irs s)) = device_info_gauge s"
  "public_ip_info (snd (for_each set_radio irs s)) = public_ip_info s"
  "google_ping_gauge (snd (for_each set_radio irs s)) = google_ping_gauge s"
  "last_speedtest_time (snd (for_each set_radio irs s)) = last_speedtest_time s"
  "port_mapping_gauge (snd (for_each set_radio irs s)) = port_mapping_gauge s"
  "clock (snd (for_each set_radio irs s)) = clock s"
  "io (snd (for_each set_radio irs s)) = io s"
  "stdout (snd (for_each set_radio irs s)) = stdout s"
  by (rule for_each_preserves, rule set_radio_frame)+

lemma for_each_set_radio_fst:
  "fst (for_each set_radio irs s) = Returns () \<or>
   fst (for_each set_radio irs s) = Raises (Exception ''TypeError'')"
proof (cases "fst (for_each set_radio irs s)")
  case (Returns v)
  then show ?thesis by simp
next
  case (Raises x)
  from for_each_raises [OF this] set_radio_raises have "x = Exception ''TypeError''" by blast
  with Raises show ?thesis by simp
qed

lemma collect_wifi_stats_alt:
  "collect_wifi_stats r s =
     (case fst (collect_wifi_stats_try r s) of
        Returns v \<Rightarrow> (Returns v, snd (collect_wifi_stats_try r s))
      | Raises (Exception m) \<Rightarrow>
          (Returns (), print (Error_collecting_WiFi_stats m) (snd (collect_wifi_stats_try r s)))
      | Raises (BaseException m) \<Rightarrow> (Raises (BaseException m), snd (collect_wifi_stats_try r s)))"
  by (cases "collect_wifi_stats_try r s")
     (simp add: collect_wifi_stats_def except_Exception_def split: result.splits exn.splits)

lemma collect_wifi_stats_try_fst:
  "fst (collect_wifi_stats_try r s) =
     (case snd r of
        Raises x \<Rightarrow> Raises x
      | Returns rs \<Rightarrow>
          if falsy rs then Returns ()
          else fst (for_each set_radio (enumerate 0 (items rs))
                 (s\<lparr>clock := clock s + fst r,
                    io := io s @ [(Get_value_by_xpath ''Device/WiFi/Radios'', clock s)],
                    wifi_radio_signal_gauge := Map.empty,
                    wifi_radio_channel_gauge := Map.empty\<rparr>)))"
  by (simp add: collect_wifi_stats_try_def and_then_alt await_fst await_snd Let_def
      split: result.splits)

lemma collect_wifi_stats_try_frame:
  "connected_devices_gauge (snd (collect_wifi_stats_try r s)) = connected_devices_gauge s"
  "device_status_gauge (snd (collect_wifi_stats_try r s)) = device_status_gauge s"
  "device_lease_gauge (snd (collect_wifi_stats_try r s)) = device_lease_gauge s"
  "device_info_gauge (snd (collect_wifi_stats_try r s)) = device_info_gauge s"
  "public_ip_info (snd (collect_wifi_stats_try r s)) = public_ip_info s"
  "google_ping_gauge (snd (collect_wifi_stats_try r s)) = google_ping_gauge s"
  "last_speedtest_time (snd (collect_wifi_stats_try r s)) = last_speedtest_time s"
  "port_mapping_gauge (snd (collect_wifi_stats_try r s)) = port_mapping_gauge s"
  "clock (snd (collect_wifi_stats_try r s)) = clock s + fst r"
  "io (snd (collect_wifi_stats_try r s)) = io s @ [(Get_value_by_xpath ''Device/WiFi/Radios'', clock s)]"
  by (simp_all add: collect_wifi_stats_try_def and_then_alt await_fst await_snd Let_def
      print_def for_each_set_radio_frame split: result.splits)

lemma collect_wifi_stats_fst:
  "fst (collect_wifi_stats r s) =
     (case snd r of Raises (BaseException m) \<Rightarrow> Raises (BaseException m) | _ \<Rightarrow> Returns ())"
proof (cases "snd r")
  case (Returns rs)
  show ?thesis
    using for_each_set_radio_fst
      [of "enumerate 0 (items rs)"
          "s\<lparr>clock := clock s + fst r,
             io := io s @ [(Get_value_by_xpath ''Device/WiFi/Radios'', clock s)],
             wifi_radio_signal_gauge := Map.empty,
             wifi_radio_channel_gauge := Map.empty\<rparr>"]
    by (auto simp add: collect_wifi_stats_alt collect_wifi_stats_try_fst Returns)
next
  case (Raises x)
  then show ?thesis
    by (simp add: collect_wifi_stats_alt collect_wifi_stats_try_fst split: exn.splits)
qed

text \<open>An empty answer: the families stay as they are and a line is printed.\<close>

lemma collect_wifi_stats_falsy:
  "snd r = Returns rs \<Longrightarrow> falsy rs \<Longrightarrow>
   collect_wifi_stats r s =
     (Returns (),
      print No_WiFi_radios_found
        (s\<lparr>clock := clock s + fst r,
           io := io s @ [(Get_value_by_xpath ''Device/WiFi/Radios'', clock s)]\<rparr>))"
  by (simp add: collect_wifi_stats_def collect_wifi_stats_try_def and_then_alt await_fst
      await_snd)


text \<open>The public IP.\<close>

lemma fetch_public_ip_fst:
  "fst (fetch_public_ip r s) =
     (case snd r of
        Raises (Exception m) \<Rightarrow> Returns None
      | Raises (BaseException m) \<Rightarrow> Raises (BaseException m)
      | Returns resp \<Rightarrow>
          if 400 \<le> status_code resp \<and> status_code resp < 600 then Returns None
          else (case json resp of
                  Raises (Exception m) \<Rightarrow> Returns None
                | Raises (BaseException m) \<Rightarrow> Raises (BaseException m)
                | Returns d \<Rightarrow> Returns (d ''ip'')))"
  by (simp add: fetch_public_ip_def await_def except_Exception_def
      split: result.splits exn.splits)

lemma fetch_public_ip_snd:
  "snd (fetch_public_ip r s) =
     s\<lparr>clock := clock s + fst r,
       io := io s @ [(Requests_get, clock s)],
       stdout := stdout s @
         (case snd r of
            Raises (Exception m) \<Rightarrow> [Error_fetching_public_IP m]
          | Raises (BaseException m) \<Rightarrow> []
          | Returns resp \<Rightarrow>
              if 400 \<le> status_code resp \<and> status_code resp < 600
              then [Error_fetching_public_IP ''HTTPError'']
              else (case json resp of
                      Raises (Exception m) \<Rightarrow> [Error_fetching_public_IP m]
                    | Raises (BaseException m) \<Rightarrow> []
                    | Returns d \<Rightarrow> []))\<rparr>"
  by (simp add: fetch_public_ip_def await_def except_Exception_def print_def
      split: result.splits exn.splits)

text \<open>What the collectors leave alone.\<close>

lemma collect_port_mappings_frame:
  "connected_devices_gauge (snd (collect_port_mappings r s)) = connected_devices_gauge s"
  "device_status_gauge (snd (collect_port_mappings r s)) = device_status_gauge s"
  "device_lease_gauge (snd (collect_port_mappings r s)) = device_lease_gauge s"
  "device_info_gauge (snd (collect_port_mappings r s)) = device_info_gauge s"
  "public_ip_info (snd (collect_port_mappings r s)) = public_ip_info s"
  "google_ping_gauge (snd (collect_port_mappings r s)) = google_ping_gauge s"
  "last_speedtest_time (snd (collect_port_mappings r s)) = last_speedtest_time s"
  "wifi_radio_signal_gauge (snd (collect_port_mappings r s)) = wifi_radio_signal_gauge s"
  "wifi_radio_channel_gauge (snd (collect_port_mappings r s)) = wifi_radio_channel_gauge s"
  "clock (snd (collect_port_mappings r s)) = clock s + fst r"
  "times_of Login (io (snd (collect_port_mappings r s))) = times_of Login (io s)"
  "times_of Ping (io (snd (collect_port_mappings r s))) = times_of Ping (io s)"
  "times_of Sleep (io (snd (collect_port_mappings r s))) = times_of Sleep (io s)"
  "times_of Speedtest_init (io (snd (collect_port_mappings r s))) = times_of Speedtest_init (io s)"
  "times_of (Get_value_by_xpath ''Device/NAT/PortMappings'') (io (snd (collect_port_mappings r s))) = times_of (Get_value_by_xpath ''Device/NAT/PortMappings'') (io s) @ [clock s]"
  "times_of (Get_value_by_xpath ''Device/WiFi/Radios'') (io (snd (collect_port_mappings r s))) = times_of (Get_value_by_xpath ''Device/WiFi/Radios'') (io s)"
  "times_of Requests_get (io (snd (collect_port_mappings r s))) = times_of Requests_get (io s)"
  by (simp_all add: collect_port_mappings_snd times_of_simps)

lemma collect_wifi_stats_frame:
  "connected_devices_gauge (snd (collect_wifi_stats r s)) = connected_devices_gauge s"
  "device_status_gauge (snd (collect_wifi_stats r s)) = device_status_gauge s"
  "device_lease_gauge (snd (collect_wifi_stats r s)) = device_lease_gauge s"
  "device_info_gauge (snd (collect_wifi_stats r s)) = device_info_gauge s"
  "public_ip_info (snd (collect_wifi_stats r s)) = public_ip_info s"
  "google_ping_gauge (snd (collect_wifi_stats r s)) = google_ping_gauge s"
  "last_speedtest_time (snd (collect_wifi_stats r s)) = last_speedtest_time s"
  "port_mapping_gauge (snd (collect_wifi_stats r s)) = port_mapping_gauge s"
  "clock (snd (collect_wifi_stats r s)) = clock s + fst r"
  "times_of Login (io (snd (collect_wifi_stats r s))) = times_of Login (io s)"
  "times_of Ping (io (snd (collect_wifi_stats r s))) = times_of Ping (io s)"
  "times_of Sleep (io (snd (collect_wifi_stats r s))) = times_of Sleep (io s)"
  "times_of Speedtest_init (io (snd (collect_wifi_stats r s))) = times_of Speedtest_init (io s)"
  "times_of (Get_value_by_xpath ''Device/NAT/PortMappings'') (io (snd (collect_wifi_stats r s))) = times_of (Get_value_by_xpath ''Device/NAT/PortMappings'') (io s)"
  "times_of (Get_value_by_xpath ''Device/WiFi/Radios'') (io (snd (collect_wifi_stats r s))) = times_of (Get_value_by_xpath ''Device/WiFi/Radios'') (io s) @ [clock s]"
  "times_of Requests_get (io (snd (collect_wifi_stats r s))) = times_of Requests_get (io s)"
  by (simp_all add: collect_wifi_stats_alt collect_wifi_stats_try_frame print_frame
      times_of_simps split: result.splits exn.splits)

lemma fetch_public_ip_frame:
  "connected_devices_gauge (snd (fetch_public_ip r s)) = connected_devices_gauge s"
  "device_status_gauge (snd (fetch_public_ip r s)) = device_status_gauge s"
  "device_lease_gauge (snd (fetch_public_ip r s)) = device_lease_gauge s"
  "device_info_gauge (snd (fetch_public_ip r s)) = device_info_gauge s"
  "public_ip_info (snd (fetch_public_ip r s)) = public_ip_info s"
  "google_ping_gauge (snd (fetch_public_ip r s)) = google_ping_gauge s"
  "last_speedtest_time (snd (fetch_public_ip r s)) = last_speedtest_time s"
  "port_mapping_gauge (snd (fetch_public_ip r s)) = port_mapping_gauge s"
  "wifi_radio_signal_gauge (snd (fetch_public_ip r s)) = wifi_radio_signal_gauge s"
  "wifi_radio_channel_gauge (snd (fetch_public_ip r s)) = wifi_radio_channel_gauge s"
  "clock (snd (fetch_public_ip r s)) = clock s + fst r"
  "times_of Login (io (snd (fetch_public_ip r s))) = times_of Login (io s)"
  "times_of Ping (io (snd (fetch_public_ip r s))) = times_of Ping (io s)"
  "times_of Sleep (io (snd (fetch_public_ip r s))) = times_of Sleep (io s)"
  "times_of Speedtest_init (io (snd (fetch_public_ip r s))) = times_of Speedtest_init (io s)"
  "times_of (Get_value_by_xpath ''Device/NAT/PortMappings'') (io (snd (fetch_public_ip r s))) = times_of (Get_value_by_xpath ''Device/NAT/PortMappings'') (io s)"
  "times_of (Get_value_by_xpath ''Device/WiFi/Radios'') (io (snd (fetch_public_ip r s))) = times_of (Get_value_by_xpath ''Device/WiFi/Radios'') (io s)"
  "times_of Requests_get (io (snd (fetch_public_ip r s))) = times_of Requests_get (io s) @ [clock s]"
  by (simp_all add: fetch_public_ip_snd times_of_simps)

lemma ping_google_frame:
  "connected_devices_gauge (snd (ping_google r s)) = connected_devices_gauge s"
  "device_status_gauge (snd (ping_google r s)) = device_status_gauge s"
  "device_lease_gauge (snd (ping_google r s)) = device_lease_gauge s"
  "device_info_gauge (snd (ping_google r s)) = device_info_gauge s"
  "public_ip_info (snd (ping_google r s)) = public_ip_info s"
  "last_speedtest_time (snd (ping_google r s)) = last_speedtest_time s"
  "port_mapping_gauge (snd (ping_google r s)) = port_mapping_gauge s"
  "wifi_radio_signal_gauge (snd (ping_google r s)) = wifi_radio_signal_gauge s"
  "wifi_radio_channel_gauge (snd (ping_google r s)) = wifi_radio_channel_gauge s"
  "clock (snd (ping_google r s)) = clock s + fst r"
  "times_of Login (io (snd (ping_google r s))) = times_of Login (io s)"
  "times_of Ping (io (snd (ping_google r s))) = times_of Ping (io s) @ [clock s]"
  "times_of Sleep (io (snd (ping_google r s))) = times_of Sleep (io s)"
  "times_of Speedtest_init (io (snd (ping_google r s))) = times_of Speedtest_init (io s)"
  "times_of (Get_value_by_xpath ''Device/NAT/PortMappings'') (io (snd (ping_google r s))) = times_of (Get_value_by_xpath ''Device/NAT/PortMappings'') (io s)"
  "times_of (Get_value_by_xpath ''Device/WiFi/Radios'') (io (snd (ping_google r s))) = times_of (Get_value_by_xpath ''Device/WiFi/Radios'') (io s)"
  "times_of Requests_get (io (snd (ping_google r s))) = times_of Requests_get (io s)"
  by (simp_all add: ping_google_snd times_of_simps)

text \<open>The hosts: a pass of the loop touches the three host families and nothing else.\<close>

lemma set_lease_fst:
  "fst (set_lease mac k v s) =
     (case v of None \<Rightarrow> Raises (Exception ''TypeError'') | Some i \<Rightarrow> Returns ())"
  by (simp add: set_lease_def labels_set_def split: option.splits)

lemma set_lease_frame:
  "connected_devices_gauge (snd (set_lease mac k v s)) = connected_devices_gauge s"
  "device_status_gauge (snd (set_lease mac k v s)) = device_status_gauge s"
  "device_info_gauge (snd (set_lease mac k v s)) = device_info_gauge s"
  "public_ip_info (snd (set_lease mac k v s)) = public_ip_info s"
  "google_ping_gauge (snd (set_lease mac k v s)) = google_ping_gauge s"
  "last_speedtest_time (snd (set_lease mac k v s)) = last_speedtest_time s"
  "port_mapping_gauge (snd (set_lease mac k v s)) = port_mapping_gauge s"
  "wifi_radio_signal_gauge (snd (set_lease mac k v s)) = wifi_radio_signal_gauge s"
  "wifi_radio_channel_gauge (snd (set_lease mac k v s)) = wifi_radio_channel_gauge s"
  "clock (snd (set_lease mac k v s)) = clock s"
  "io (snd (set_lease mac k v s)) = io s"
  "stdout (snd (set_lease mac k v s)) = stdout s"
  by (simp_all add: set_lease_def split: prod.splits)

lemma set_device_fst:
  "fst (set_device d s) =
     (case host_id d of
        None \<Rightarrow> Raises (Exception ''AttributeError'')
      | Some mac \<Rightarrow>
          if lease_start d = None \<or> lease_duration d = None \<or> lease_time_remaining d = None
          then Raises (Exception ''TypeError'') else Returns ())"
  by (simp add: set_device_def Let_def and_then_alt set_lease_fst
      split: option.splits result.splits)

lemma set_device_ok: "host_ok d \<Longrightarrow> fst (set_device d s) = Returns ()"
  by (auto simp add: set_device_fst host_ok_def)

lemma set_device_not_ok: "\<not> host_ok d \<Longrightarrow> \<exists>m. fst (set_device d s) = Raises (Exception m)"
  by (auto simp add: set_device_fst host_ok_def split: option.splits)

lemma set_device_frame:
  "connected_devices_gauge (snd (set_device d s)) = connected_devices_gauge s"
  "public_ip_info (snd (set_device d s)) = public_ip_info s"
  "google_ping_gauge (snd (set_device d s)) = google_ping_gauge s"
  "last_speedtest_time (snd (set_device d s)) = last_speedtest_time s"
  "port_mapping_gauge (snd (set_device d s)) = port_mapping_gauge s"
  "wifi_radio_signal_gauge (snd (set_device d s)) = wifi_radio_signal_gauge s"
  "wifi_radio_channel_gauge (snd (set_device d s)) = wifi_radio_channel_gauge s"
  "clock (snd (set_device d s)) = clock s"
  "io (snd (set_device d s)) = io s"
  "stdout (snd (set_device d s)) = stdout s"
  by (simp_all add: set_device_def Let_def and_then_alt set_lease_frame
      split: option.splits result.splits)

lemma set_device_status:
  "device_status_gauge (snd (set_device d s)) =
     (case host_id d of
        None \<Rightarrow> device_status_gauge s
      | Some mac \<Rightarrow> (device_status_gauge s)(status_labels d \<mapsto> (if active d then 1 else 0)))"
  by (simp add: set_device_def Let_def and_then_alt set_lease_frame status_labels_def ident_def
      split: option.splits result.splits)

lemma for_each_set_device_frame:
  "connected_devices_gauge (snd (for_each set_device ds s)) = connected_devices_gauge s"
  "public_ip_info (snd (for_each set_device ds s)) = public_ip_info s"
  "google_ping_gauge (snd (for_each set_device ds s)) = google_ping_gauge s"
  "last_speedtest_time (snd (for_each set_device ds s)) = last_speedtest_time s"
  "port_mapping_gauge (snd (for_each set_device ds s)) = port_mapping_gauge s"
  "wifi_radio_signal_gauge (snd (for_each set_device ds s)) = wifi_radio_signal_gauge s"
  "wifi_radio_channel_gauge (snd (for_each set_device ds s)) = wifi_radio_channel_gauge s"
  "clock (snd (for_each set_device ds s)) = clock s"
  "io (snd (for_each set_device ds s)) = io s"
  "stdout (snd (for_each set_device ds s)) = stdout s"
  by (rule for_each_preserves, rule set_device_frame)+

lemma for_each_set_device_ok:
  "list_all host_ok ds \<Longrightarrow> fst (for_each set_device ds s) = Returns ()"
  by (rule for_each_returns) (simp add: set_device_ok list_all_iff)

lemma for_each_set_device_not_ok:
  "\<not> list_all host_ok ds \<Longrightarrow> \<exists>m. fst (for_each set_device ds s) = Raises (Exception m)"
proof (induction ds arbitrary: s)
  case Nil
  then show ?case by simp
next
  case (Cons d ds)
  show ?case
  proof (cases "host_ok d")
    case True
    with Cons.prems have "\<not> list_all host_ok ds" by simp
    from Cons.IH [OF this] show ?thesis
      by (simp add: and_then_alt set_device_ok True)
  next
    case False
    from set_device_not_ok [OF this] obtain m where "fst (set_device d s) = Raises (Exception m)"
      by blast
    then show ?thesis by (simp add: and_then_alt)
  qed
qed

lemma for_each_set_device_status:
  "list_all host_ok ds \<Longrightarrow>
   device_status_gauge (snd (for_each set_device ds s)) =
     foldl (\<lambda>g d. g(status_labels d \<mapsto> (if active d then 1 else 0))) (device_status_gauge s) ds"
proof (induction ds arbitrary: s)
  case Nil
  then show ?case by simp
next
  case (Cons d ds)
  then have ok: "host_ok d" and rest: "list_all host_ok ds" by simp_all
  from ok obtain mac where mac: "host_id d = Some mac" by (auto simp add: host_ok_def)
  show ?case
    by (simp add: and_then_alt set_device_ok [OF ok] Cons.IH [OF rest] set_device_status mac)
qed


text \<open>Lines 248--283.\<close>

lemma set_devices_ok: "list_all host_ok ds \<Longrightarrow> fst (set_devices ds s) = Returns ()"
  by (simp add: set_devices_def Let_def for_each_set_device_ok)

lemma set_devices_not_ok:
  "\<not> list_all host_ok ds \<Longrightarrow> \<exists>m. fst (set_devices ds s) = Raises (Exception m)"
  by (simp add: set_devices_def Let_def for_each_set_device_not_ok)

lemma set_devices_frame:
  "port_mapping_gauge (snd (set_devices ds s)) = port_mapping_gauge s"
  "wifi_radio_signal_gauge (snd (set_devices ds s)) = wifi_radio_signal_gauge s"
  "wifi_radio_channel_gauge (snd (set_devices ds s)) = wifi_radio_channel_gauge s"
  "public_ip_info (snd (set_devices ds s)) = public_ip_info s"
  "google_ping_gauge (snd (set_devices ds s)) = google_ping_gauge s"
  "last_speedtest_time (snd (set_devices ds s)) = last_speedtest_time s"
  "clock (snd (set_devices ds s)) = clock s"
  "io (snd (set_devices ds s)) = io s"
  "stdout (snd (set_devices ds s)) = stdout s"
  by (simp_all add: set_devices_def Let_def for_each_set_device_frame)

lemma set_devices_connected:
  "connected_devices_gauge (snd (set_devices ds s)) = real (length (filter active ds))"
  by (simp add: set_devices_def Let_def for_each_set_device_frame)

lemma set_devices_status:
  "list_all host_ok ds \<Longrightarrow>
   device_status_gauge (snd (set_devices ds s)) =
     foldl (\<lambda>g d. g(status_labels d \<mapsto> (if active d then 1 else 0))) Map.empty ds"
  by (simp add: set_devices_def Let_def for_each_set_device_status)


text \<open>Lines 234--242 and 299--307.\<close>

lemma set_public_ip_frame:
  "connected_devices_gauge (set_public_ip ci ip s) = connected_devices_gauge s"
  "device_info_gauge (set_public_ip ci ip s) = device_info_gauge s"
  "device_status_gauge (set_public_ip ci ip s) = device_status_gauge s"
  "device_lease_gauge (set_public_ip ci ip s) = device_lease_gauge s"
  "port_mapping_gauge (set_public_ip ci ip s) = port_mapping_gauge s"
  "wifi_radio_signal_gauge (set_public_ip ci ip s) = wifi_radio_signal_gauge s"
  "wifi_radio_channel_gauge (set_public_ip ci ip s) = wifi_radio_channel_gauge s"
  "google_ping_gauge (set_public_ip ci ip s) = google_ping_gauge s"
  "last_speedtest_time (set_public_ip ci ip s) = last_speedtest_time s"
  "clock (set_public_ip ci ip s) = clock s"
  "io (set_public_ip ci ip s) = io s"
  "public_ip_info (set_public_ip ci ip s) =
     (case ip of None \<Rightarrow> public_ip_info s
      | Some a \<Rightarrow> if a = [] then public_ip_info s else Some [(''public_ip'', a)])"
  by (simp_all add: set_public_ip_def print_def Let_def split: option.splits)

lemma set_device_info_frame:
  "connected_devices_gauge (snd (set_device_info di s)) = connected_devices_gauge s"
  "device_info_gauge (snd (set_device_info di s)) = device_info_gauge s"
  "device_status_gauge (snd (set_device_info di s)) = device_status_gauge s"
  "device_lease_gauge (snd (set_device_info di s)) = device_lease_gauge s"
  "port_mapping_gauge (snd (set_device_info di s)) = port_mapping_gauge s"
  "wifi_radio_signal_gauge (snd (set_device_info di s)) = wifi_radio_signal_gauge s"
  "wifi_radio_channel_gauge (snd (set_device_info di s)) = wifi_radio_channel_gauge s"
  "public_ip_info (snd (set_device_info di s)) = public_ip_info s"
  "google_ping_gauge (snd (set_device_info di s)) = google_ping_gauge s"
  "last_speedtest_time (snd (set_device_info di s)) = last_speedtest_time s"
  "clock (snd (set_device_info di s)) = clock s"
  "io (snd (set_device_info di s)) = io s"
  "stdout (snd (set_device_info di s)) = stdout s @ [Device_info_lines di]"
  by (simp_all add: set_device_info_def print_def Let_def split: option.splits)

lemma set_device_info_fst:
  "fst (set_device_info di s) =
     (if info_ok di then Returns () else Raises (Exception ''TypeError''))"
  by (simp add: set_device_info_def info_ok_def Let_def split: option.splits)

lemma set_device_info_await:
  "snd (set_device_info di (snd (await c r s))) =
     (snd (set_device_info di s))\<lparr>clock := clock s + fst r, io := io s @ [(c, clock s)]\<rparr>"
  by (simp add: set_device_info_def print_def await_def Let_def split: option.splits)

lemma info_read_frame:
  "connected_devices_gauge (info_read e di s) = connected_devices_gauge s"
  "device_status_gauge (info_read e di s) = device_status_gauge s"
  "device_lease_gauge (info_read e di s) = device_lease_gauge s"
  "device_info_gauge (info_read e di s) = device_info_gauge s"
  "public_ip_info (info_read e di s) = public_ip_info s"
  "google_ping_gauge (info_read e di s) = google_ping_gauge s"
  "last_speedtest_time (info_read e di s) = last_speedtest_time s"
  "port_mapping_gauge (info_read e di s) = port_mapping_gauge s"
  "wifi_radio_signal_gauge (info_read e di s) = wifi_radio_signal_gauge s"
  "wifi_radio_channel_gauge (info_read e di s) = wifi_radio_channel_gauge s"
  "clock (info_read e di s) = clock s + fst (login e) + fst (get_device_info e)"
  "stdout (info_read e di s) = stdout s @ [Device_info_lines di]"
  "times_of Login (io (info_read e di s)) = times_of Login (io s) @ [clock s]"
  "times_of Ping (io (info_read e di s)) = times_of Ping (io s)"
  "times_of Sleep (io (info_read e di s)) = times_of Sleep (io s)"
  "times_of Speedtest_init (io (info_read e di s)) = times_of Speedtest_init (io s)"
  "times_of (Get_value_by_xpath ''Device/NAT/PortMappings'') (io (info_read e di s)) = times_of (Get_value_by_xpath ''Device/NAT/PortMappings'') (io s)"
  "times_of (Get_value_by_xpath ''Device/WiFi/Radios'') (io (info_read e di s)) = times_of (Get_value_by_xpath ''Device/WiFi/Radios'') (io s)"
  "times_of Requests_get (io (info_read e di s)) = times_of Requests_get (io s)"
  by (simp_all add: info_read_def set_device_info_frame times_of_simps)

lemma hosts_read_frame:
  "connected_devices_gauge (hosts_read e di s) = connected_devices_gauge s"
  "device_status_gauge (hosts_read e di s) = device_status_gauge s"
  "device_lease_gauge (hosts_read e di s) = device_lease_gauge s"
  "device_info_gauge (hosts_read e di s) = device_info_gauge s"
  "public_ip_info (hosts_read e di s) = public_ip_info s"
  "google_ping_gauge (hosts_read e di s) = google_ping_gauge s"
  "last_speedtest_time (hosts_read e di s) = last_speedtest_time s"
  "port_mapping_gauge (hosts_read e di s) = port_mapping_gauge s"
  "wifi_radio_signal_gauge (hosts_read e di s) = wifi_radio_signal_gauge s"
  "wifi_radio_channel_gauge (hosts_read e di s) = wifi_radio_channel_gauge s"
  "clock (hosts_read e di s) = clock s + fst (login e) + fst (get_device_info e) + fst (get_hosts e)"
  "stdout (hosts_read e di s) = stdout s @ [Device_info_lines di]"
  "times_of Login (io (hosts_read e di s)) = times_of Login (io s) @ [clock s]"
  "times_of Ping (io (hosts_read e di s)) = times_of Ping (io s)"
  "times_of Sleep (io (hosts_read e di s)) = times_of Sleep (io s)"
  "times_of Speedtest_init (io (hosts_read e di s)) = times_of Speedtest_init (io s)"
  "times_of (Get_value_by_xpath ''Device/NAT/PortMappings'') (io (hosts_read e di s)) = times_of (Get_value_by_xpath ''Device/NAT/PortMappings'') (io s)"
  "times_of (Get_value_by_xpath ''Device/WiFi/Radios'') (io (hosts_read e di s)) = times_of (Get_value_by_xpath ''Device/WiFi/Radios'') (io s)"
  "times_of Requests_get (io (hosts_read e di s)) = times_of Requests_get (io s)"
  by (simp_all add: hosts_read_def set_device_info_frame times_of_simps)

text \<open>Lines 288--307.\<close>

lemmas rest_unfold = port_mappings_wifi_public_ip_def and_then_alt

lemmas sub_frames =
  collect_port_mappings_frame collect_wifi_stats_frame fetch_public_ip_frame set_public_ip_frame

lemma rest_fst:
  "catchable (snd (port_mappings_xpath e)) \<Longrightarrow> catchable (snd (wifi_radios_xpath e)) \<Longrightarrow>
   catchable_response (snd (requests_get e)) \<Longrightarrow>
   fst (port_mappings_wifi_public_ip ci e s) = Returns ()"
  by (simp add: rest_unfold collect_port_mappings_fst
      collect_wifi_stats_fst fetch_public_ip_fst catchable_def catchable_response_def
      split: result.splits exn.splits)


lemma rest_frame:
  "connected_devices_gauge (snd (port_mappings_wifi_public_ip ci e s)) = connected_devices_gauge s"
  "device_info_gauge (snd (port_mappings_wifi_public_ip ci e s)) = device_info_gauge s"
  "device_status_gauge (snd (port_mappings_wifi_public_ip ci e s)) = device_status_gauge s"
  "device_lease_gauge (snd (port_mappings_wifi_public_ip ci e s)) = device_lease_gauge s"
  "google_ping_gauge (snd (port_mappings_wifi_public_ip ci e s)) = google_ping_gauge s"
  "last_speedtest_time (snd (port_mappings_wifi_public_ip ci e s)) = last_speedtest_time s"
  "times_of Login (io (snd (port_mappings_wifi_public_ip ci e s))) = times_of Login (io s)"
  "times_of Ping (io (snd (port_mappings_wifi_public_ip ci e s))) = times_of Ping (io s)"
  "times_of Sleep (io (snd (port_mappings_wifi_public_ip ci e s))) = times_of Sleep (io s)"
  "times_of Speedtest_init (io (snd (port_mappings_wifi_public_ip ci e s))) =
     times_of Speedtest_init (io s)"
  by (simp_all add: rest_unfold sub_frames split: result.splits)


text \<open>The \<^verbatim>\<open>try\<close> block, by the place where it ends.\<close>

lemma collect_try_login_raises:
  "snd (login e) = Raises x \<Longrightarrow>
   collect_sagemcom_metrics_try ci e s =
     (Raises x, s\<lparr>clock := clock s + fst (login e), io := io s @ [(Login, clock s)]\<rparr>)"
  by (simp add: collect_sagemcom_metrics_try_def and_then_alt await_fst await_snd)

lemma collect_try_info_raises:
  "snd (login e) = Returns u \<Longrightarrow> snd (get_device_info e) = Raises x \<Longrightarrow>
   collect_sagemcom_metrics_try ci e s =
     (Raises x,
      s\<lparr>clock := clock s + fst (login e) + fst (get_device_info e),
        io := io s @ [(Login, clock s), (Get_device_info, clock s + fst (login e))]\<rparr>)"
  by (simp add: collect_sagemcom_metrics_try_def and_then_alt await_fst await_snd)

lemma collect_try_info_not_ok:
  "snd (login e) = Returns u \<Longrightarrow> snd (get_device_info e) = Returns di \<Longrightarrow> \<not> info_ok di \<Longrightarrow>
   collect_sagemcom_metrics_try ci e s = (Raises (Exception ''TypeError''), info_read e di s)"
  by (simp add: collect_sagemcom_metrics_try_def and_then_alt await_fst set_device_info_fst
      set_device_info_await info_read_def) (simp add: await_snd)

lemma collect_try_hosts_raises:
  "snd (login e) = Returns u \<Longrightarrow> snd (get_device_info e) = Returns di \<Longrightarrow> info_ok di \<Longrightarrow>
   snd (get_hosts e) = Raises x \<Longrightarrow>
   collect_sagemcom_metrics_try ci e s = (Raises x, hosts_read e di s)"
  by (simp add: collect_sagemcom_metrics_try_def and_then_alt await_fst set_device_info_fst
      set_device_info_await hosts_read_def) (simp add: await_snd)

lemma collect_try_hosts_returned:
  "snd (login e) = Returns u \<Longrightarrow> snd (get_device_info e) = Returns di \<Longrightarrow> info_ok di \<Longrightarrow>
   snd (get_hosts e) = Returns devices \<Longrightarrow>
   collect_sagemcom_metrics_try ci e s =
     and_then (set_devices devices (hosts_read e di s))
       (\<lambda>_ s4. port_mappings_wifi_public_ip ci e s4)"
proof -
  assume a: "snd (login e) = Returns u" "snd (get_device_info e) = Returns di" "info_ok di"
    "snd (get_hosts e) = Returns devices"
  have "snd (await Get_hosts (get_hosts e)
      (snd (set_device_info di
        (snd (await Get_device_info (get_device_info e) (snd (await Login (login e) s))))))) =
      hosts_read e di s"
    by (simp add: set_device_info_await hosts_read_def) (simp add: await_snd)
  with a show ?thesis
    by (simp add: collect_sagemcom_metrics_try_def and_then_alt await_fst set_device_info_fst
        cong: result.case_cong)
qed

lemma collect_try_hosts_not_ok:
  assumes "snd (login e) = Returns u" "snd (get_device_info e) = Returns di" "info_ok di"
    "snd (get_hosts e) = Returns devices" "\<not> list_all host_ok devices"
  shows "collect_sagemcom_metrics_try ci e s = set_devices devices (hosts_read e di s)"
proof -
  from set_devices_not_ok [OF assms(5)] obtain m
    where "fst (set_devices devices (hosts_read e di s)) = Raises (Exception m)" by blast
  then show ?thesis
    by (cases "set_devices devices (hosts_read e di s)")
       (simp add: collect_try_hosts_returned [OF assms(1-4)] and_then_alt)
qed

lemma collect_try_hosts_ok:
  "snd (login e) = Returns u \<Longrightarrow> snd (get_device_info e) = Returns di \<Longrightarrow> info_ok di \<Longrightarrow>
   snd (get_hosts e) = Returns devices \<Longrightarrow> list_all host_ok devices \<Longrightarrow>
   collect_sagemcom_metrics_try ci e s =
     port_mappings_wifi_public_ip ci e (snd (set_devices devices (hosts_read e di s)))"
  by (simp add: collect_try_hosts_returned and_then_alt set_devices_ok)

lemma collect_try_cases:
  obtains (login_raises) x where "snd (login e) = Raises x"
  | (info_raises) x where "snd (login e) = Returns ()" "snd (get_device_info e) = Raises x"
  | (info_not_ok) di where "snd (login e) = Returns ()" "snd (get_device_info e) = Returns di"
      "\<not> info_ok di"
      "\<And>ci s. collect_sagemcom_metrics_try ci e s =
         (Raises (Exception ''TypeError''), info_read e di s)"
  | (hosts_raises) di x where "snd (login e) = Returns ()" "snd (get_device_info e) = Returns di"
      "info_ok di" "snd (get_hosts e) = Raises x"
      "\<And>ci s. collect_sagemcom_metrics_try ci e s = (Raises x, hosts_read e di s)"
  | (hosts_not_ok) di devices where "snd (login e) = Returns ()"
      "snd (get_device_info e) = Returns di" "info_ok di" "snd (get_hosts e) = Returns devices"
      "\<not> list_all host_ok devices"
      "\<And>ci s. collect_sagemcom_metrics_try ci e s = set_devices devices (hosts_read e di s)"
  | (hosts_ok) di devices where "snd (login e) = Returns ()"
      "snd (get_device_info e) = Returns di" "info_ok di" "snd (get_hosts e) = Returns devices"
      "list_all host_ok devices"
      "\<And>ci s. collect_sagemcom_metrics_try ci e s =
         port_mappings_wifi_public_ip ci e (snd (set_devices devices (hosts_read e di s)))"
proof (cases "snd (login e)")
  case (Returns u)
  then have l: "snd (login e) = Returns ()" by simp
  show ?thesis
  proof (cases "snd (get_device_info e)")
    case di: (Returns di)
    show ?thesis
    proof (cases "info_ok di")
      case ok: True
      show ?thesis
      proof (cases "snd (get_hosts e)")
        case h: (Returns devices)
        show ?thesis
        proof (cases "list_all host_ok devices")
          case True
          show ?thesis
            by (rule hosts_ok [OF l di ok h True]) (rule collect_try_hosts_ok [OF l di ok h True])
        next
          case False
          show ?thesis
            by (rule hosts_not_ok [OF l di ok h False])
               (rule collect_try_hosts_not_ok [OF l di ok h False])
        qed
      next
        case h: (Raises x)
        show ?thesis
          by (rule hosts_raises [OF l di ok h]) (rule collect_try_hosts_raises [OF l di ok h])
      qed
    next
      case False
      show ?thesis
        by (rule info_not_ok [OF l di False]) (rule collect_try_info_not_ok [OF l di False])
    qed
  next
    case (Raises x)
    with l info_raises show ?thesis by blast
  qed
next
  case (Raises x)
  with login_raises show ?thesis by blast
qed

text \<open>The device poll.\<close>

lemma dom_foldl_upd:
  "dom (foldl (\<lambda>g d. g(k d \<mapsto> v d)) g0 ds) = dom g0 \<union> k ` set ds"
  by (induction ds arbitrary: g0) auto

lemma foldl_upd_notin:
  "x \<notin> k ` set ds \<Longrightarrow> foldl (\<lambda>g d. g(k d \<mapsto> v d)) g0 ds x = g0 x"
  by (induction ds arbitrary: g0) auto

lemma foldl_upd_distinct:
  "distinct (map k ds) \<Longrightarrow> d \<in> set ds \<Longrightarrow>
   foldl (\<lambda>g d. g(k d \<mapsto> v d)) g0 ds (k d) = Some (v d)"
proof (induction ds arbitrary: g0)
  case Nil
  then show ?case by simp
next
  case (Cons a ds)
  show ?case
  proof (cases "d = a")
    case True
    from Cons.prems have "k a \<notin> k ` set ds" by auto
    then have "foldl (\<lambda>g d. g(k d \<mapsto> v d)) (g0(k a \<mapsto> v a)) ds (k a) = (g0(k a \<mapsto> v a)) (k a)"
      by (rule foldl_upd_notin)
    then have "foldl (\<lambda>g d. g(k d \<mapsto> v d)) (g0(k a \<mapsto> v a)) ds (k a) = Some (v a)"
      by simp
    with True show ?thesis by (simp only: foldl_Cons)
  next
    case False
    with Cons.prems have "distinct (map k ds)" "d \<in> set ds" by auto
    then have "foldl (\<lambda>g d. g(k d \<mapsto> v d)) (g0(k a \<mapsto> v a)) ds (k d) = Some (v d)"
      by (rule Cons.IH)
    then show ?thesis by (simp only: foldl_Cons)
  qed
qed

lemma collect_alt:
  "collect_sagemcom_metrics ci e s =
     (case fst (collect_sagemcom_metrics_try ci e s) of
        Returns v \<Rightarrow> (Returns v, snd (collect_sagemcom_metrics_try ci e s))
      | Raises (Exception m) \<Rightarrow>
          (Returns (), print (An_error_occurred_while_retrieving_data m)
             (snd (collect_sagemcom_metrics_try ci e s)))
      | Raises (BaseException m) \<Rightarrow>
          (Raises (BaseException m), snd (collect_sagemcom_metrics_try ci e s)))"
  by (cases "collect_sagemcom_metrics_try ci e s")
     (simp add: collect_sagemcom_metrics_def except_Exception_def split: result.splits exn.splits)

lemma collect_success:
  assumes "fst (collect_sagemcom_metrics_try ci e s) = Returns ()"
  obtains devices s0 where
    "snd (get_hosts e) = Returns devices" "list_all host_ok devices"
    "collect_sagemcom_metrics ci e s =
       (Returns (), snd (port_mappings_wifi_public_ip ci e (snd (set_devices devices s0))))"
proof (cases e rule: collect_try_cases)
  case (login_raises x)
  with assms show ?thesis by (simp add: collect_try_login_raises)
next
  case (info_raises x)
  with assms show ?thesis by (simp add: collect_try_info_raises)
next
  case (info_not_ok di)
  with assms show ?thesis by simp
next
  case (hosts_raises di x)
  with assms show ?thesis by simp
next
  case (hosts_not_ok di devices)
  from set_devices_not_ok [OF hosts_not_ok(5)] obtain m
    where "fst (set_devices devices (hosts_read e di s)) = Raises (Exception m)" by blast
  with assms show ?thesis by (simp add: hosts_not_ok(6))
next
  case (hosts_ok di devices)
  have "collect_sagemcom_metrics ci e s =
      (Returns (), snd (collect_sagemcom_metrics_try ci e s))"
    using assms by (simp add: collect_alt)
  then show ?thesis
    using that hosts_ok(4,5) unfolding hosts_ok(6) by blast
qed

lemma collect_try_returns:
  "snd (login e) = Returns () \<Longrightarrow> snd (get_device_info e) = Returns di \<Longrightarrow> info_ok di \<Longrightarrow>
   snd (get_hosts e) = Returns ds \<Longrightarrow> list_all host_ok ds \<Longrightarrow>
   catchable (snd (port_mappings_xpath e)) \<Longrightarrow> catchable (snd (wifi_radios_xpath e)) \<Longrightarrow>
   catchable_response (snd (requests_get e)) \<Longrightarrow>
   fst (collect_sagemcom_metrics_try ci e s) = Returns ()"
  by (simp add: collect_try_hosts_ok rest_fst)

lemma rest_public_ip_info:
  "lookup_fails (requests_get e) \<Longrightarrow>
   public_ip_info (snd (port_mappings_wifi_public_ip ci e s)) = public_ip_info s"
  by (simp add: rest_unfold sub_frames fetch_public_ip_fst lookup_fails_def
      split: result.splits exn.splits if_splits)

lemma rest_clock:
  "0 \<le> fst (port_mappings_xpath e) \<Longrightarrow> 0 \<le> fst (wifi_radios_xpath e) \<Longrightarrow>
   0 \<le> fst (requests_get e) \<Longrightarrow>
   clock s \<le> clock (snd (port_mappings_wifi_public_ip ci e s))"
  by (simp add: rest_unfold sub_frames split: result.splits)

lemmas collect_try_ends =
  collect_try_login_raises collect_try_info_raises

lemma collect_try_frame:
  "google_ping_gauge (snd (collect_sagemcom_metrics_try ci e s)) = google_ping_gauge s"
  "last_speedtest_time (snd (collect_sagemcom_metrics_try ci e s)) = last_speedtest_time s"
  "times_of Login (io (snd (collect_sagemcom_metrics_try ci e s))) = times_of Login (io s) @ [clock s]"
  "times_of Ping (io (snd (collect_sagemcom_metrics_try ci e s))) = times_of Ping (io s)"
  "times_of Sleep (io (snd (collect_sagemcom_metrics_try ci e s))) = times_of Sleep (io s)"
  "times_of Speedtest_init (io (snd (collect_sagemcom_metrics_try ci e s))) =
     times_of Speedtest_init (io s)"
  by (cases e rule: collect_try_cases;
      simp add: collect_try_ends rest_frame set_devices_frame hosts_read_frame info_read_frame times_of_simps)+

lemma collect_try_public_ip_info:
  "lookup_fails (requests_get e) \<Longrightarrow>
   public_ip_info (snd (collect_sagemcom_metrics_try ci e s)) = public_ip_info s"
  by (cases e rule: collect_try_cases;
      simp add: collect_try_ends rest_public_ip_info set_devices_frame hosts_read_frame info_read_frame)

lemma collect_try_clock:
  assumes "0 \<le> fst (login e)" "0 \<le> fst (get_device_info e)" "0 \<le> fst (get_hosts e)"
    "0 \<le> fst (port_mappings_xpath e)" "0 \<le> fst (wifi_radios_xpath e)"
    "0 \<le> fst (requests_get e)"
  shows "clock s \<le> clock (snd (collect_sagemcom_metrics_try ci e s))"
proof (cases e rule: collect_try_cases)
  case (login_raises x)
  with assms show ?thesis by (simp add: collect_try_login_raises)
next
  case (info_raises x)
  with assms show ?thesis by (simp add: collect_try_info_raises)
next
  case (info_not_ok di)
  with assms show ?thesis by (simp add: info_read_frame)
next
  case (hosts_raises di x)
  with assms show ?thesis by (simp add: hosts_read_frame)
next
  case (hosts_not_ok di devices)
  with assms show ?thesis by (simp add: set_devices_frame hosts_read_frame)
next
  case (hosts_ok di devices)
  let ?s0 = "snd (set_devices devices (hosts_read e di s))"
  have "clock ?s0 \<le> clock (snd (port_mappings_wifi_public_ip ci e ?s0))"
    using assms by (intro rest_clock)
  moreover have "clock s \<le> clock ?s0"
    using assms by (simp add: set_devices_frame hosts_read_frame)
  ultimately show ?thesis
    by (simp add: hosts_ok(6))
qed




lemma collect_frame:
  "google_ping_gauge (snd (collect_sagemcom_metrics ci e s)) = google_ping_gauge s"
  "last_speedtest_time (snd (collect_sagemcom_metrics ci e s)) = last_speedtest_time s"
  "times_of Login (io (snd (collect_sagemcom_metrics ci e s))) = times_of Login (io s) @ [clock s]"
  "times_of Ping (io (snd (collect_sagemcom_metrics ci e s))) = times_of Ping (io s)"
  "times_of Sleep (io (snd (collect_sagemcom_metrics ci e s))) = times_of Sleep (io s)"
  "times_of Speedtest_init (io (snd (collect_sagemcom_metrics ci e s))) =
     times_of Speedtest_init (io s)"
  "clock (snd (collect_sagemcom_metrics ci e s)) = clock (snd (collect_sagemcom_metrics_try ci e s))"
  by (simp_all add: collect_alt collect_try_frame print_frame split: result.splits exn.splits)


lemma collect_public_ip_info:
  "lookup_fails (requests_get e) \<Longrightarrow>
   public_ip_info (snd (collect_sagemcom_metrics ci e s)) = public_ip_info s"
  by (simp add: collect_alt collect_try_public_ip_info print_frame split: result.splits exn.splits)

lemma collect_fst:
  assumes "catchable (snd (login e))" "catchable (snd (get_device_info e))"
    "catchable (snd (get_hosts e))"
    "catchable (snd (port_mappings_xpath e))" "catchable (snd (wifi_radios_xpath e))"
    "catchable_response (snd (requests_get e))"
  shows "fst (collect_sagemcom_metrics ci e s) = Returns ()"
proof (cases e rule: collect_try_cases)
  case (login_raises x)
  with assms(1) show ?thesis
    by (simp add: collect_alt collect_try_login_raises catchable_def split: exn.splits)
next
  case (info_raises x)
  with assms(2) show ?thesis
    by (simp add: collect_alt collect_try_info_raises catchable_def split: exn.splits)
next
  case (info_not_ok di)
  then show ?thesis by (simp add: collect_alt)
next
  case (hosts_raises di x)
  with assms(3) show ?thesis
    by (simp add: collect_alt catchable_def split: exn.splits)
next
  case (hosts_not_ok di devices)
  from set_devices_not_ok [OF hosts_not_ok(5)] obtain m
    where "fst (set_devices devices (hosts_read e di s)) = Raises (Exception m)" by blast
  then show ?thesis
    by (simp add: collect_alt hosts_not_ok(6))
next
  case (hosts_ok di devices)
  then show ?thesis
    by (simp add: collect_alt rest_fst [OF assms(4-6)])
qed

section \<open>The latency probe\<close>

text \<open>
  C8, at the outcome where the code leaves the claim. The probe
  (\<^verbatim>\<open>ping3.ping\<close>) answers \<^verbatim>\<open>False\<close>, not \<^verbatim>\<open>None\<close>, for a target that it
  cannot resolve or reach. \<^verbatim>\<open>ping_google\<close> tests \<^verbatim>\<open>ping_time is not None\<close> only,
  so \<^verbatim>\<open>False\<close> takes the branch of a measured delay: the function returns, the
  exported latency is the finite value 0 (\<^verbatim>\<open>False * 1000\<close>), and a latency of 0 ms
  is printed; the not-a-number sentinel is not exported. The other outcomes are as the
  claim has them: a probe that times out (\<^verbatim>\<open>None\<close>) or raises an \<open>Exception\<close> \<open>m\<close>
  does not make \<^verbatim>\<open>ping_google\<close> fail and exports the not-a-number sentinel, the
  error being printed in the second case; a probe that returns the round-trip time \<open>t\<close>
  (seconds) exports the finite value \<open>t * 1000\<close> (milliseconds), whatever was exported
  before, in particular right after a probe that timed out. \<open>d\<close> and \<open>d'\<close> are the
  seconds the probes take.
\<close>

theorem unreachable_target_exports_zero_latency:
  "fst (ping_google (d, Returns Ping_False) s) = Returns () \<and>
   google_ping_gauge (snd (ping_google (d, Returns Ping_False) s)) = Finite 0 \<and>
   google_ping_gauge (snd (ping_google (d, Returns Ping_False) s)) \<noteq> NaN \<and>
   Ping_to_Google 0 \<in> set (stdout (snd (ping_google (d, Returns Ping_False) s))) \<and>
   fst (ping_google (d, Returns Ping_None) s) = Returns () \<and>
   google_ping_gauge (snd (ping_google (d, Returns Ping_None) s)) = NaN \<and>
   fst (ping_google (d, Raises (Exception m)) s) = Returns () \<and>
   google_ping_gauge (snd (ping_google (d, Raises (Exception m)) s)) = NaN \<and>
   Error_pinging_google m \<in> set (stdout (snd (ping_google (d, Raises (Exception m)) s))) \<and>
   fst (ping_google (d, Returns (Delay t)) s) = Returns () \<and>
   google_ping_gauge (snd (ping_google (d, Returns (Delay t)) s)) = Finite (t * 1000) \<and>
   google_ping_gauge
     (snd (ping_google (d', Returns (Delay t)) (snd (ping_google (d, Returns Ping_None) s)))) =
     Finite (t * 1000)"
  by (simp add: ping_google_fst ping_google_snd)

section \<open>The host table\<close>

lemma router_calls:
  "snd (login (router hosts ip)) = Returns ()"
  "snd (get_device_info (router hosts ip)) = Returns example_device_info"
  "snd (get_hosts (router hosts ip)) = Returns hosts"
  "catchable (snd (port_mappings_xpath (router hosts ip)))"
  "catchable (snd (wifi_radios_xpath (router hosts ip)))"
  "catchable_response (snd (requests_get (router hosts ip)))"
  by (simp_all add: router_def catchable_def catchable_response_def)

lemma example_info_ok: "info_ok example_device_info"
  by (simp add: info_ok_def example_device_info_def)

lemma example_hosts_ok:
  "host_ok host_A" "host_ok host_B" "host_ok host_A_phone" "\<not> host_ok host_C"
  by (simp_all add: host_ok_def host_A_def host_B_def host_A_phone_def host_C_def)

lemma router_try_returns:
  "list_all host_ok hosts \<Longrightarrow>
   fst (collect_sagemcom_metrics_try ci (router hosts ip) s) = Returns ()"
  by (rule collect_try_returns) (rule router_calls example_info_ok | assumption)+

lemma router_A_B_try_returns:
  "fst (collect_sagemcom_metrics_try ci (router [host_A, host_B] ip) s) = Returns ()"
  "fst (collect_sagemcom_metrics_try ci (router [host_A] ip) s) = Returns ()"
  "fst (collect_sagemcom_metrics_try ci (router [host_A, host_A_phone] ip) s) = Returns ()"
  by (rule router_try_returns, simp add: example_hosts_ok)+

text \<open>What a successful device poll leaves in the status family and the scalar.\<close>

lemma collect_status:
  assumes "fst (collect_sagemcom_metrics_try ci e s) = Returns ()"
    and "snd (get_hosts e) = Returns devices"
  shows "list_all host_ok devices"
    and "device_status_gauge (snd (collect_sagemcom_metrics ci e s)) =
      foldl (\<lambda>g d. g(status_labels d \<mapsto> (if active d then 1 else 0))) Map.empty devices"
    and "connected_devices_gauge (snd (collect_sagemcom_metrics ci e s)) =
      real (length (filter active devices))"
proof -
  from assms(1) obtain devices' s0 where
    h: "snd (get_hosts e) = Returns devices'" and
    k: "list_all host_ok devices'" and
    c: "collect_sagemcom_metrics ci e s =
       (Returns (), snd (port_mappings_wifi_public_ip ci e (snd (set_devices devices' s0))))"
    by (rule collect_success)
  from h assms(2) have eq: "devices' = devices" by simp
  from k eq show ok: "list_all host_ok devices" by simp
  show "device_status_gauge (snd (collect_sagemcom_metrics ci e s)) =
      foldl (\<lambda>g d. g(status_labels d \<mapsto> (if active d then 1 else 0))) Map.empty devices"
    by (simp add: c eq rest_frame set_devices_status [OF ok])
  show "connected_devices_gauge (snd (collect_sagemcom_metrics ci e s)) =
      real (length (filter active devices))"
    by (simp add: c eq rest_frame set_devices_connected)
qed

text \<open>
  C10. After every successful device poll (the try block of
  \<^verbatim>\<open>collect_sagemcom_metrics\<close> ends without an exception), the host table that
  \<^verbatim>\<open>get_hosts\<close> returned in that poll determines the exported scalar: the
  connected-devices gauge is the number of hosts whose active flag is true. Every host of
  the table, active or not, has its series in the device-status family.
\<close>

theorem connected_devices_counts_active_hosts:
  assumes "fst (collect_sagemcom_metrics_try ci e s) = Returns ()"
  shows "\<exists>devices. snd (get_hosts e) = Returns devices \<and>
     connected_devices_gauge (snd (collect_sagemcom_metrics ci e s)) =
       real (length (filter active devices)) \<and>
     dom (device_status_gauge (snd (collect_sagemcom_metrics ci e s))) =
       status_labels ` set devices"
proof -
  from assms obtain devices s0 where
    h: "snd (get_hosts e) = Returns devices" and
    "list_all host_ok devices" and
    "collect_sagemcom_metrics ci e s =
       (Returns (), snd (port_mappings_wifi_public_ip ci e (snd (set_devices devices s0))))"
    by (rule collect_success)
  note c = collect_status [OF assms h]
  have "dom (device_status_gauge (snd (collect_sagemcom_metrics ci e s))) =
       status_labels ` set devices"
    by (simp add: c(2) dom_foldl_upd)
  with c(3) h show ?thesis by blast
qed

theorem connected_devices_counts_active_hosts_witness:
  "connected_devices_gauge
     (snd (collect_sagemcom_metrics 300 (router [host_A, host_B] ''203.0.113.7'')
       (initial_state 0))) = 1 \<and>
   dom (device_status_gauge
     (snd (collect_sagemcom_metrics 300 (router [host_A, host_B] ''203.0.113.7'')
       (initial_state 0)))) =
     {[''A'', ''laptop'', ''laptop'', ''WiFi''], [''B'', ''printer'', ''None'', ''Ethernet'']}"
proof -
  have "fst (collect_sagemcom_metrics_try 300 (router [host_A, host_B] ''203.0.113.7'')
      (initial_state 0)) = Returns ()"
    by (rule router_A_B_try_returns)
  from connected_devices_counts_active_hosts [OF this]
  show ?thesis
    by (auto simp add: router_calls host_A_def host_B_def status_labels_def ident_def
        str_opt_def)
qed

text \<open>
  C4, as the code has it. After every successful device poll the device-status family
  holds exactly the label tuples (identifier, name, host name, interface) of that
  poll's hosts, whatever it held before: a host that is absent from the table has no
  series left. When the host table has no identifier twice, there are as many series as
  hosts, for each identifier exactly one series with that \<open>mac_address\<close> label (the
  first label), and its value is 1 for an active host and 0 otherwise. (The series are
  keyed by all four labels, not by the identifier: see the counterexample.)
\<close>

theorem host_family_is_exactly_this_polls_hosts:
  assumes ok: "fst (collect_sagemcom_metrics_try ci e s) = Returns ()"
    and hosts: "snd (get_hosts e) = Returns devices"
  shows "dom (device_status_gauge (snd (collect_sagemcom_metrics ci e s))) =
       status_labels ` set devices \<and>
     (distinct (map host_id devices) \<longrightarrow>
        card (dom (device_status_gauge (snd (collect_sagemcom_metrics ci e s)))) =
          length devices \<and>
        (\<forall>d \<in> set devices.
           {l \<in> dom (device_status_gauge (snd (collect_sagemcom_metrics ci e s))).
              hd l = ident d} = {status_labels d} \<and>
           device_status_gauge (snd (collect_sagemcom_metrics ci e s)) (status_labels d) =
             Some (if active d then 1 else 0)))"
proof -
  let ?g = "device_status_gauge (snd (collect_sagemcom_metrics ci e s))"
  note c = collect_status [OF ok hosts]
  note g = c(2)
  have d: "dom ?g = status_labels ` set devices"
    by (simp add: g dom_foldl_upd)
  have rest: "card (dom ?g) = length devices \<and>
      (\<forall>d \<in> set devices.
         {l \<in> dom ?g. hd l = ident d} = {status_labels d} \<and>
         ?g (status_labels d) = Some (if active d then 1 else 0))"
    if ids: "distinct (map host_id devices)"
  proof -
    have some: "host_id x = Some (ident x)" if "x \<in> set devices" for x
      using c(1) that by (auto simp add: list_all_iff host_ok_def ident_def)
    have same: "x = y" if "x \<in> set devices" "y \<in> set devices" "ident x = ident y" for x y
    proof -
      from that some have "host_id x = host_id y" by simp
      with ids that(1,2) show ?thesis by (meson distinct_map inj_onD)
    qed
    have inj: "inj_on status_labels (set devices)"
      by (rule inj_onI) (simp add: same status_labels_def)
    have dl: "distinct (map status_labels devices)"
      using ids inj by (simp add: distinct_map)
    have "card (status_labels ` set devices) = length devices"
      using inj ids by (simp add: card_image distinct_card distinct_map)
    moreover have "\<forall>d \<in> set devices.
          {l \<in> dom ?g. hd l = ident d} = {status_labels d} \<and>
          ?g (status_labels d) = Some (if active d then 1 else 0)"
    proof
      fix x assume x: "x \<in> set devices"
      have "{l \<in> dom ?g. hd l = ident x} = {status_labels x}"
      proof
        show "{l \<in> dom ?g. hd l = ident x} \<subseteq> {status_labels x}"
        proof
          fix l assume "l \<in> {l \<in> dom ?g. hd l = ident x}"
          then obtain y where y: "y \<in> set devices" "l = status_labels y" "hd l = ident x"
            using d by auto
          then have "ident y = ident x" by (simp add: status_labels_def)
          with x y have "y = x" by (simp add: same)
          with y show "l \<in> {status_labels x}" by simp
        qed
        show "{status_labels x} \<subseteq> {l \<in> dom ?g. hd l = ident x}"
          using x d by (auto simp add: status_labels_def)
      qed
      moreover have "?g (status_labels x) = Some (if active x then 1 else 0)"
        unfolding g using dl x by (rule foldl_upd_distinct)
      ultimately show "{l \<in> dom ?g. hd l = ident x} = {status_labels x} \<and>
          ?g (status_labels x) = Some (if active x then 1 else 0)" by simp
    qed
    ultimately show ?thesis using d by simp
  qed
  from d rest show ?thesis by blast
qed

text \<open>
  The counterexample to C4 as stated: the host table has two entries with the
  identifier A, named laptop and phone. The poll succeeds and the family holds two
  series whose \<open>mac_address\<close> label is A.
\<close>

theorem two_series_for_one_identifier_counterexample:
  "fst (collect_sagemcom_metrics_try 300 (router [host_A, host_A_phone] ''203.0.113.7'')
     (initial_state 0)) = Returns () \<and>
   ident host_A = ''A'' \<and> ident host_A_phone = ''A'' \<and>
   {l \<in> dom (device_status_gauge
      (snd (collect_sagemcom_metrics 300 (router [host_A, host_A_phone] ''203.0.113.7'')
        (initial_state 0)))). hd l = ''A''} =
     {[''A'', ''laptop'', ''laptop'', ''WiFi''], [''A'', ''phone'', ''laptop'', ''WiFi'']} \<and>
   card {l \<in> dom (device_status_gauge
      (snd (collect_sagemcom_metrics 300 (router [host_A, host_A_phone] ''203.0.113.7'')
        (initial_state 0)))). hd l = ''A''} = 2"
proof -
  let ?e = "router [host_A, host_A_phone] ''203.0.113.7''"
  let ?g = "device_status_gauge (snd (collect_sagemcom_metrics 300 ?e (initial_state 0)))"
  have ok: "fst (collect_sagemcom_metrics_try 300 ?e (initial_state 0)) = Returns ()"
    by (rule router_A_B_try_returns)
  note c = collect_status [OF ok router_calls(3)]
  have "dom ?g = status_labels ` set [host_A, host_A_phone]"
    unfolding c(2) dom_foldl_upd by simp
  then have d: "dom ?g =
      {[''A'', ''laptop'', ''laptop'', ''WiFi''], [''A'', ''phone'', ''laptop'', ''WiFi'']}"
    by (simp add: status_labels_def ident_def str_opt_def host_A_def host_A_phone_def)
  have s: "{l \<in> dom ?g. hd l = ''A''} =
      {[''A'', ''laptop'', ''laptop'', ''WiFi''], [''A'', ''phone'', ''laptop'', ''WiFi'']}"
    unfolding d by auto
  have "card {l \<in> dom ?g. hd l = ''A''} = 2"
    unfolding s by simp
  with ok s show ?thesis
    by (simp add: ident_def host_A_def host_A_phone_def)
qed

theorem host_family_is_exactly_this_polls_hosts_witness:
  "card (dom (device_status_gauge
     (snd (collect_sagemcom_metrics 300 (router [host_A, host_B] ''203.0.113.7'')
       (initial_state 0))))) = 2 \<and>
   dom (device_status_gauge
     (snd (collect_sagemcom_metrics 300 (router [host_A] ''203.0.113.7'')
       (snd (collect_sagemcom_metrics 300 (router [host_A, host_B] ''203.0.113.7'')
         (initial_state 0)))))) = {[''A'', ''laptop'', ''laptop'', ''WiFi'']}"
proof -
  have d2: "distinct (map host_id [host_A, host_B])"
    by (simp add: host_A_def host_B_def)
  note first = host_family_is_exactly_this_polls_hosts
    [OF router_A_B_try_returns(1) router_calls(3), of 300 "''203.0.113.7''" "initial_state 0"]
  note second = host_family_is_exactly_this_polls_hosts
    [OF router_A_B_try_returns(2) router_calls(3), of 300 "''203.0.113.7''"
      "snd (collect_sagemcom_metrics 300 (router [host_A, host_B] ''203.0.113.7'')
         (initial_state 0))"]
  from first d2 have "card (dom (device_status_gauge
     (snd (collect_sagemcom_metrics 300 (router [host_A, host_B] ''203.0.113.7'')
       (initial_state 0))))) = length [host_A, host_B]"
    by blast
  then have "card (dom (device_status_gauge
     (snd (collect_sagemcom_metrics 300 (router [host_A, host_B] ''203.0.113.7'')
       (initial_state 0))))) = 2"
    by simp
  moreover from second have "dom (device_status_gauge
     (snd (collect_sagemcom_metrics 300 (router [host_A] ''203.0.113.7'')
       (snd (collect_sagemcom_metrics 300 (router [host_A, host_B] ''203.0.113.7'')
         (initial_state 0)))))) = status_labels ` set [host_A]"
    by (rule conjunct1)
  then have "dom (device_status_gauge
     (snd (collect_sagemcom_metrics 300 (router [host_A] ''203.0.113.7'')
       (snd (collect_sagemcom_metrics 300 (router [host_A, host_B] ''203.0.113.7'')
         (initial_state 0)))))) = {[''A'', ''laptop'', ''laptop'', ''WiFi'']}"
    by (simp add: host_A_def status_labels_def ident_def str_opt_def)
  ultimately show ?thesis by simp
qed







section \<open>Failed polls\<close>









text \<open>A radio with its two numbers: the loop over the radios installs both series.\<close>

lemma wifi_radio_0:
  "collect_wifi_stats (d, Returns (Some [radio_0])) s =
     (Returns (),
      s\<lparr>clock := clock s + d,
        io := io s @ [(Get_value_by_xpath ''Device/WiFi/Radios'', clock s)],
        wifi_radio_signal_gauge := [[''0''] \<mapsto> - 40],
        wifi_radio_channel_gauge := [[''0''] \<mapsto> 6]\<rparr>)"
  by (simp add: collect_wifi_stats_def collect_wifi_stats_try_def and_then_def await_def
      falsy_def items_def set_radio_def Let_def radio_0_def dict_get_def labels_set_def
      labels_def digits_of.simps)




section \<open>Empty polls\<close>

text \<open>
  C3 at a concrete input. The first Wi-Fi poll finds one radio and installs its two
  series. The second poll finds no radios (an empty list, or None for a path the
  firmware does not have). It succeeds: nothing is raised and no error is printed. But
  \<^verbatim>\<open>collect_wifi_stats\<close> returns before its two \<^verbatim>\<open>clear()\<close> calls, so both
  families still hold the series of radio 0. The port-mapping collector, which clears
  before it tests for emptiness, does empty its family on the same input.
\<close>

theorem wifi_families_keep_series_after_an_empty_poll:
  "fst (collect_wifi_stats (1, Returns (Some []))
     (snd (collect_wifi_stats (1, Returns (Some [radio_0])) (initial_state 0)))) = Returns () \<and>
   wifi_radio_signal_gauge
     (snd (collect_wifi_stats (1, Returns (Some []))
       (snd (collect_wifi_stats (1, Returns (Some [radio_0])) (initial_state 0))))) [''0''] =
     Some (- 40) \<and>
   wifi_radio_channel_gauge
     (snd (collect_wifi_stats (1, Returns (Some []))
       (snd (collect_wifi_stats (1, Returns (Some [radio_0])) (initial_state 0))))) [''0''] =
     Some 6 \<and>
   wifi_radio_signal_gauge
     (snd (collect_wifi_stats (1, Returns None)
       (snd (collect_wifi_stats (1, Returns (Some [radio_0])) (initial_state 0))))) [''0''] =
     Some (- 40) \<and>
   stdout
     (snd (collect_wifi_stats (1, Returns (Some []))
       (snd (collect_wifi_stats (1, Returns (Some [radio_0])) (initial_state 0))))) =
     [No_WiFi_radios_found] \<and>
   port_mapping_gauge
     (snd (collect_port_mappings (1, Returns (Some [mapping_80])) (initial_state 0)))
     [''80'', ''8080'', ''tcp'', ''active''] = Some 1 \<and>
   port_mapping_gauge
     (snd (collect_port_mappings (1, Returns (Some []))
       (snd (collect_port_mappings (1, Returns (Some [mapping_80])) (initial_state 0))))) =
     Map.empty"
  by (simp add: wifi_radio_0 collect_wifi_stats_falsy [of _ "Some []"]
      collect_wifi_stats_falsy [of _ None] collect_port_mappings_snd print_def
      falsy_def items_def mapping_80_def dict_get_def digits_of.simps
      port_mapping_labels_def str_int_def initial_state_def)

section \<open>What the loop does to the state\<close>

lemma possibly_run_speedtest_alt:
  "possibly_run_speedtest e s =
     (if clock s - last_speedtest_time s \<ge> speedtest_interval_seconds
      then (case fst (run_speedtest e s) of
              Raises x \<Rightarrow> (Raises x, snd (run_speedtest e s))
            | Returns v \<Rightarrow> (Returns (), (snd (run_speedtest e s))\<lparr>last_speedtest_time := clock s\<rparr>))
      else (Returns (), s))"
  by (simp add: possibly_run_speedtest_def and_then_alt Let_def)

lemma possibly_run_speedtest_frame:
  "public_ip_info (snd (possibly_run_speedtest e s)) = public_ip_info s"
  "google_ping_gauge (snd (possibly_run_speedtest e s)) = google_ping_gauge s"
  "times_of Login (io (snd (possibly_run_speedtest e s))) = times_of Login (io s)"
  "times_of Ping (io (snd (possibly_run_speedtest e s))) = times_of Ping (io s)"
  "times_of Sleep (io (snd (possibly_run_speedtest e s))) = times_of Sleep (io s)"
  "times_of Speedtest_init (io (snd (possibly_run_speedtest e s))) =
     times_of Speedtest_init (io s) @
     (if clock s - last_speedtest_time s \<ge> speedtest_interval_seconds then [clock s] else [])"
  "clock (snd (possibly_run_speedtest e s)) =
     clock s +
     (if clock s - last_speedtest_time s \<ge> speedtest_interval_seconds
      then run_speedtest_seconds e else 0)"
  "times_of (Get_value_by_xpath ''Device/NAT/PortMappings'') (io (snd (possibly_run_speedtest e s))) = times_of (Get_value_by_xpath ''Device/NAT/PortMappings'') (io s)"
  "times_of (Get_value_by_xpath ''Device/WiFi/Radios'') (io (snd (possibly_run_speedtest e s))) = times_of (Get_value_by_xpath ''Device/WiFi/Radios'') (io s)"
  "times_of Requests_get (io (snd (possibly_run_speedtest e s))) = times_of Requests_get (io s)"
  by (simp_all add: possibly_run_speedtest_alt run_speedtest_frame split: result.splits)

lemma possibly_run_speedtest_last:
  "fst (possibly_run_speedtest e s) = Returns () \<Longrightarrow>
   last_speedtest_time (snd (possibly_run_speedtest e s)) =
     (if clock s - last_speedtest_time s \<ge> speedtest_interval_seconds
      then clock s else last_speedtest_time s)"
  by (simp add: possibly_run_speedtest_alt split: result.splits if_splits)

lemma possibly_run_speedtest_fst:
  "catchable (snd (speedtest_init e)) \<Longrightarrow> catchable (snd (get_best_server e)) \<Longrightarrow>
   catchable (snd (download e)) \<Longrightarrow> catchable (snd (upload e)) \<Longrightarrow>
   fst (possibly_run_speedtest e s) = Returns ()"
  by (simp add: possibly_run_speedtest_alt run_speedtest_fst)

lemma asyncio_sleep_fst: "fst (asyncio_sleep d s) = Returns ()"
  by (simp add: asyncio_sleep_def await_fst)

lemma asyncio_sleep_snd:
  "snd (asyncio_sleep d s) =
     s\<lparr>clock := clock s + max 0 (real_of_int d), io := io s @ [(Sleep, clock s)]\<rparr>"
  by (simp add: asyncio_sleep_def await_snd)

lemma asyncio_sleep_frame:
  "public_ip_info (snd (asyncio_sleep d s)) = public_ip_info s"
  "google_ping_gauge (snd (asyncio_sleep d s)) = google_ping_gauge s"
  "last_speedtest_time (snd (asyncio_sleep d s)) = last_speedtest_time s"
  "times_of Login (io (snd (asyncio_sleep d s))) = times_of Login (io s)"
  "times_of Ping (io (snd (asyncio_sleep d s))) = times_of Ping (io s)"
  "times_of Speedtest_init (io (snd (asyncio_sleep d s))) = times_of Speedtest_init (io s)"
  "times_of Sleep (io (snd (asyncio_sleep d s))) = times_of Sleep (io s) @ [clock s]"
  "clock (snd (asyncio_sleep d s)) = clock s + max 0 (real_of_int d)"
  "times_of (Get_value_by_xpath ''Device/NAT/PortMappings'') (io (snd (asyncio_sleep d s))) = times_of (Get_value_by_xpath ''Device/NAT/PortMappings'') (io s)"
  "times_of (Get_value_by_xpath ''Device/WiFi/Radios'') (io (snd (asyncio_sleep d s))) = times_of (Get_value_by_xpath ''Device/WiFi/Radios'') (io s)"
  "times_of Requests_get (io (snd (asyncio_sleep d s))) = times_of Requests_get (io s)"
  by (simp_all add: asyncio_sleep_snd times_of_simps)

lemmas loop_unfold = loop_body_def and_then_alt

lemma loop_body_public_ip_info:
  "lookup_fails (requests_get (dev e)) \<Longrightarrow>
   public_ip_info (snd (loop_body ci e s)) = public_ip_info s"
  by (simp add: loop_unfold collect_public_ip_info ping_google_frame
      possibly_run_speedtest_frame asyncio_sleep_frame split: result.splits)

lemma update_metrics_loop_Cons:
  "update_metrics_loop ci (e # es) s =
     (case fst (loop_body ci e s) of
        Raises x \<Rightarrow> (Raises x, snd (loop_body ci e s))
      | Returns v \<Rightarrow> update_metrics_loop ci es (snd (loop_body ci e s)))"
  by (cases "loop_body ci e s") (simp split: result.splits)

declare update_metrics_loop.simps(2) [simp del]

lemma loop_public_ip_info:
  "\<forall>e \<in> set es. lookup_fails (requests_get (dev e)) \<Longrightarrow>
   public_ip_info (snd (update_metrics_loop ci es s)) = public_ip_info s"
proof (induction es arbitrary: s)
  case Nil
  show ?case by simp
next
  case (Cons e es)
  then show ?case
    by (simp add: update_metrics_loop_Cons loop_body_public_ip_info split: result.splits)
qed

lemma router_public_ip_info:
  assumes "list_all host_ok hosts"
  shows "public_ip_info (snd (collect_sagemcom_metrics ci (router hosts ip) s)) =
     (if ip = [] then public_ip_info s else Some [(''public_ip'', ip)])"
proof -
  have "public_ip_info (snd (collect_sagemcom_metrics_try ci (router hosts ip) s)) =
     (if ip = [] then public_ip_info s else Some [(''public_ip'', ip)])"
    unfolding collect_try_hosts_ok [OF router_calls(1,2) example_info_ok router_calls(3) assms]
    by (simp add: rest_unfold sub_frames collect_port_mappings_fst collect_wifi_stats_fst
        fetch_public_ip_fst set_devices_frame hosts_read_frame router_def)
  then show ?thesis
    by (simp add: collect_alt router_try_returns [OF assms])
qed

section \<open>The public IP\<close>

text \<open>
  C7. A lookup fails when the request raises, when the status is an error, or when the
  body is not JSON. Then \<^verbatim>\<open>fetch_public_ip\<close> returns None (unless the exception is
  not an \<open>Exception\<close>, which ends the process), and no \<^verbatim>\<open>info\<close> call is made:
  after the loop iteration the public-IP info is what it was before. So after any number
  of consecutive iterations whose lookups fail, the info is still that of the last
  lookup that succeeded, and it is absent when the process started with these
  iterations.
\<close>

theorem failed_lookup_keeps_public_ip_info:
  "(lookup_fails r \<longrightarrow> catchable_response (snd r) \<longrightarrow>
      fst (fetch_public_ip r s) = Returns None) \<and>
   (lookup_fails (requests_get (dev e)) \<longrightarrow>
      public_ip_info (snd (loop_body ci e s)) = public_ip_info s) \<and>
   ((\<forall>e \<in> set es. lookup_fails (requests_get (dev e))) \<longrightarrow>
      public_ip_info (snd (update_metrics_loop ci es s)) = public_ip_info s \<and>
      public_ip_info (snd (update_metrics_loop ci es (initial_state t0))) = None)"
proof -
  have "fst (fetch_public_ip r s) = Returns None"
    if "lookup_fails r" "catchable_response (snd r)"
    using that
    by (auto simp add: fetch_public_ip_fst lookup_fails_def catchable_response_def catchable_def
        split: result.splits exn.splits)
  moreover have "public_ip_info (initial_state t0) = None"
    by (simp add: initial_state_def)
  ultimately show ?thesis
    by (simp add: loop_body_public_ip_info loop_public_ip_info)
qed

theorem failed_lookup_keeps_public_ip_info_witness:
  "public_ip_info
     (snd (update_metrics_loop 300 [lookup_times_out, lookup_times_out]
       (snd (collect_sagemcom_metrics 300 (router [host_A] ''203.0.113.7'') (initial_state 0))))) =
     Some [(''public_ip'', ''203.0.113.7'')] \<and>
   public_ip_info
     (snd (update_metrics_loop 300 [lookup_times_out, lookup_times_out] (initial_state 0))) =
     None \<and>
   fst (fetch_public_ip (requests_get (dev lookup_times_out)) (initial_state 0)) = Returns None"
proof -
  have f: "lookup_fails (requests_get (dev lookup_times_out))"
    by (simp add: lookup_times_out_def lookup_fails_def)
  have c: "catchable_response (snd (requests_get (dev lookup_times_out)))"
    by (simp add: lookup_times_out_def catchable_response_def catchable_def)
  have all: "\<forall>e \<in> set [lookup_times_out, lookup_times_out]. lookup_fails (requests_get (dev e))"
    using f by simp
  note inst = failed_lookup_keeps_public_ip_info
    [of "requests_get (dev lookup_times_out)" _ lookup_times_out 300
      "[lookup_times_out, lookup_times_out]" "0"]
  have "public_ip_info
     (snd (update_metrics_loop 300 [lookup_times_out, lookup_times_out]
       (snd (collect_sagemcom_metrics 300 (router [host_A] ''203.0.113.7'') (initial_state 0))))) =
     public_ip_info
       (snd (collect_sagemcom_metrics 300 (router [host_A] ''203.0.113.7'') (initial_state 0)))"
    using inst
        [of "snd (collect_sagemcom_metrics 300 (router [host_A] ''203.0.113.7'') (initial_state 0))"]
      all by blast
  moreover have "public_ip_info
     (snd (update_metrics_loop 300 [lookup_times_out, lookup_times_out] (initial_state 0))) =
     None"
    using inst [of "initial_state 0"] all by blast
  moreover have "fst (fetch_public_ip (requests_get (dev lookup_times_out)) (initial_state 0)) =
     Returns None"
    using inst [of "initial_state 0"] f c by blast
  ultimately show ?thesis
    by (simp add: router_public_ip_info example_hosts_ok)
qed







lemma catchable_fst_ping:
  "catchable (snd r) \<Longrightarrow> fst (ping_google r s) = Returns ()"
  by (simp add: ping_google_fst catchable_def split: result.splits exn.splits)

lemma only_Exceptions_D:
  assumes "only_Exceptions e"
  shows "fst (collect_sagemcom_metrics ci (dev e) s) = Returns ()"
    and "fst (ping_google (png e) s) = Returns ()"
    and "fst (possibly_run_speedtest (spd e) s) = Returns ()"
proof -
  from assms have c:
    "catchable (snd (login (dev e)))" "catchable (snd (get_device_info (dev e)))"
    "catchable (snd (get_hosts (dev e)))" "catchable (snd (port_mappings_xpath (dev e)))"
    "catchable (snd (wifi_radios_xpath (dev e)))"
    "catchable_response (snd (requests_get (dev e)))"
    and p: "catchable (snd (png e))"
    and t: "catchable (snd (speedtest_init (spd e)))" "catchable (snd (get_best_server (spd e)))"
      "catchable (snd (download (spd e)))" "catchable (snd (upload (spd e)))"
    unfolding only_Exceptions_def by blast+
  show "fst (collect_sagemcom_metrics ci (dev e) s) = Returns ()"
    by (rule collect_fst) (rule c)+
  show "fst (ping_google (png e) s) = Returns ()"
    by (rule catchable_fst_ping) (rule p)
  show "fst (possibly_run_speedtest (spd e) s) = Returns ()"
    by (rule possibly_run_speedtest_fst) (rule t)+
qed

lemma loop_body_snd:
  assumes "only_Exceptions e"
  shows "snd (loop_body ci e s) =
     snd (asyncio_sleep ci
       (snd (possibly_run_speedtest (spd e)
         (snd (ping_google (png e) (snd (collect_sagemcom_metrics ci (dev e) s)))))))"
    and "fst (loop_body ci e s) = Returns ()"
  by (simp_all add: loop_unfold only_Exceptions_D [OF assms] asyncio_sleep_fst)






section \<open>Errors do not leave the loop\<close>




text \<open>One iteration, summed up.\<close>

lemma possibly_run_speedtest_due:
  "times_of Speedtest_init (io (snd (possibly_run_speedtest e s))) =
     times_of Speedtest_init (io s) @ (if speedtest_due s then [clock s] else [])"
  "clock (snd (possibly_run_speedtest e s)) =
     clock s + (if speedtest_due s then run_speedtest_seconds e else 0)"
  "fst (possibly_run_speedtest e s) = Returns () \<Longrightarrow>
   last_speedtest_time (snd (possibly_run_speedtest e s)) =
     (if speedtest_due s then clock s else last_speedtest_time s)"
  by (simp_all add: possibly_run_speedtest_frame possibly_run_speedtest_last speedtest_due_def)

lemma loop_body_points:
  assumes "only_Exceptions e"
  shows "snd (loop_body ci e s) = snd (asyncio_sleep ci (after_speedtest ci e s))"
  by (simp add: loop_body_snd [OF assms] after_speedtest_def at_speedtest_test_def
      after_device_poll_def)

lemma at_speedtest_test_frame:
  "last_speedtest_time (at_speedtest_test ci e s) = last_speedtest_time s"
  "times_of Speedtest_init (io (at_speedtest_test ci e s)) = times_of Speedtest_init (io s)"
  "times_of Login (io (at_speedtest_test ci e s)) = times_of Login (io s) @ [clock s]"
  "times_of Ping (io (at_speedtest_test ci e s)) =
     times_of Ping (io s) @ [clock (after_device_poll ci e s)]"
  "times_of Sleep (io (at_speedtest_test ci e s)) = times_of Sleep (io s)"
  "clock (at_speedtest_test ci e s) = clock (after_device_poll ci e s) + fst (png e)"
  by (simp_all add: at_speedtest_test_def after_device_poll_def ping_google_frame collect_frame)

lemma after_speedtest_frame:
  "times_of Speedtest_init (io (after_speedtest ci e s)) =
     times_of Speedtest_init (io s) @
     (if speedtest_due (at_speedtest_test ci e s) then [clock (at_speedtest_test ci e s)] else [])"
  "times_of Login (io (after_speedtest ci e s)) = times_of Login (io s) @ [clock s]"
  "times_of Ping (io (after_speedtest ci e s)) =
     times_of Ping (io s) @ [clock (after_device_poll ci e s)]"
  "times_of Sleep (io (after_speedtest ci e s)) = times_of Sleep (io s)"
  "clock (after_speedtest ci e s) =
     clock (at_speedtest_test ci e s) +
     (if speedtest_due (at_speedtest_test ci e s) then run_speedtest_seconds (spd e) else 0)"
  by (simp_all add: after_speedtest_def possibly_run_speedtest_due possibly_run_speedtest_frame
      at_speedtest_test_frame)

lemma after_speedtest_last:
  "only_Exceptions e \<Longrightarrow>
   last_speedtest_time (after_speedtest ci e s) =
     (if speedtest_due (at_speedtest_test ci e s) then clock (at_speedtest_test ci e s)
      else last_speedtest_time s)"
  by (simp add: after_speedtest_def possibly_run_speedtest_due only_Exceptions_D
      at_speedtest_test_frame)

lemma loop_body_frame:
  assumes "only_Exceptions e"
  shows "times_of Speedtest_init (io (snd (loop_body ci e s))) =
     times_of Speedtest_init (io s) @
     (if speedtest_due (at_speedtest_test ci e s) then [clock (at_speedtest_test ci e s)] else [])"
    and "times_of Login (io (snd (loop_body ci e s))) = times_of Login (io s) @ [clock s]"
    and "times_of Ping (io (snd (loop_body ci e s))) =
     times_of Ping (io s) @ [clock (after_device_poll ci e s)]"
    and "times_of Sleep (io (snd (loop_body ci e s))) =
     times_of Sleep (io s) @ [clock (after_speedtest ci e s)]"
    and "clock (snd (loop_body ci e s)) =
     clock (after_speedtest ci e s) + max 0 (real_of_int ci)"
    and "last_speedtest_time (snd (loop_body ci e s)) =
     (if speedtest_due (at_speedtest_test ci e s) then clock (at_speedtest_test ci e s)
      else last_speedtest_time s)"
  by (simp_all add: loop_body_points [OF assms] asyncio_sleep_frame after_speedtest_frame
      after_speedtest_last [OF assms])




lemma after_device_poll_clock:
  "takes_time e \<Longrightarrow> clock s \<le> clock (after_device_poll ci e s)"
  unfolding after_device_poll_def collect_frame
  by (rule collect_try_clock) (simp_all add: takes_time_def)

lemma router_clock:
  assumes "list_all host_ok hosts"
  shows "clock (snd (collect_sagemcom_metrics ci (router hosts ip) s)) = clock s + 6"
  unfolding collect_frame collect_try_hosts_ok [OF router_calls(1,2) example_info_ok router_calls(3) assms]
  by (simp add: rest_unfold sub_frames collect_port_mappings_fst collect_wifi_stats_fst
      fetch_public_ip_fst set_devices_frame hosts_read_frame router_def)

lemma iteration_facts:
  "only_Exceptions iteration" "takes_time iteration"
  "run_speedtest_seconds (spd iteration) = 40"
  "clock (after_device_poll ci iteration s) = clock s + 6"
  "clock (at_speedtest_test ci iteration s) = clock s + 7"
proof -
  show "only_Exceptions iteration"
    by (simp add: only_Exceptions_def iteration_def router_def
        speedtest_40s_def catchable_def catchable_response_def)
  show "takes_time iteration"
    by (simp add: takes_time_def iteration_def router_def speedtest_40s_def)
  show "run_speedtest_seconds (spd iteration) = 40"
    by (simp add: run_speedtest_seconds_def iteration_def speedtest_40s_def)
  show a: "clock (after_device_poll ci iteration s) = clock s + 6"
    by (simp add: after_device_poll_def iteration_def router_clock example_hosts_ok)
  show "clock (at_speedtest_test ci iteration s) = clock s + 7"
    by (simp add: at_speedtest_test_frame a) (simp add: iteration_def)
qed

lemma initial_state_simps:
  "clock (initial_state t0) = t0" "last_speedtest_time (initial_state t0) = 0"
  "io (initial_state t0) = []" "stdout (initial_state t0) = []"
  by (simp_all add: initial_state_def)

section \<open>When the speed test runs\<close>



lemma two_iterations_logins:
  assumes "only_Exceptions e" and "only_Exceptions e'"
  shows "times_of Login (io (snd (loop_body ci e' (snd (loop_body ci e s))))) =
     times_of Login (io s) @ [clock s, clock (after_speedtest ci e s) + max 0 (real_of_int ci)]"
  by (simp add: loop_body_frame [OF assms(2)] loop_body_frame [OF assms(1)])

lemma after_speedtest_clock_mono:
  assumes "takes_time e"
  shows "clock s \<le> clock (after_device_poll ci e s)"
    and "clock (after_device_poll ci e s) \<le> clock (at_speedtest_test ci e s)"
    and "clock (at_speedtest_test ci e s) \<le> clock (after_speedtest ci e s)"
proof -
  show "clock s \<le> clock (after_device_poll ci e s)"
    by (rule after_device_poll_clock [OF assms])
  from assms have "0 \<le> fst (png e)"
    by (simp add: takes_time_def)
  then show "clock (after_device_poll ci e s) \<le> clock (at_speedtest_test ci e s)"
    by (simp add: at_speedtest_test_frame)
  from assms have "0 \<le> fst (speedtest_init (spd e))" "0 \<le> fst (get_best_server (spd e))"
    "0 \<le> fst (download (spd e))" "0 \<le> fst (upload (spd e))"
    by (simp_all add: takes_time_def)
  then have "0 \<le> run_speedtest_seconds (spd e)"
    by (simp add: run_speedtest_seconds_def split: result.splits)
  then show "clock (at_speedtest_test ci e s) \<le> clock (after_speedtest ci e s)"
    by (simp add: after_speedtest_frame)
qed

lemma two_iterations:
  assumes "only_Exceptions e" and "only_Exceptions e'"
  shows "update_metrics_loop ci [e, e'] s =
     (Returns (), snd (loop_body ci e' (snd (loop_body ci e s))))"
  by (simp add: update_metrics_loop_Cons loop_body_snd [OF assms(1)] loop_body_snd [OF assms(2)])

section \<open>When the next poll is due\<close>

text \<open>
  C6, as the code has it. The loop knows two cadences. (1) The collection interval is a
  sleep at the end of the body: with the process starting at \<open>t0\<close> (a clock reading
  of at least 3600, calls that take time), the first iteration logs in at \<open>t0\<close>,
  probes, and starts the speed test, all before its sleep; and after every iteration,
  whatever its polls did, the next login is issued when the iteration's last poll has
  completed and the collection interval has passed, never earlier. (2) The speed test is
  due again 3600 seconds after the clock reading taken before it started: that reading
  is what \<^verbatim>\<open>last_speedtest_time\<close> holds, whether the speed test succeeded or failed,
  and the test of the next iteration compares with it.
\<close>

theorem next_poll_is_due_after_the_sleep_and_speedtest_by_its_start:
  assumes "only_Exceptions e" and "only_Exceptions e'"
  shows "(takes_time e \<longrightarrow> 3600 \<le> t0 \<longrightarrow>
      times_of Login (io (snd (loop_body ci e (initial_state t0)))) = [t0] \<and>
      times_of Ping (io (snd (loop_body ci e (initial_state t0)))) =
        [clock (after_device_poll ci e (initial_state t0))] \<and>
      times_of Speedtest_init (io (snd (loop_body ci e (initial_state t0)))) =
        [clock (at_speedtest_test ci e (initial_state t0))] \<and>
      times_of Sleep (io (snd (loop_body ci e (initial_state t0)))) =
        [clock (after_speedtest ci e (initial_state t0))] \<and>
      t0 \<le> clock (after_device_poll ci e (initial_state t0)) \<and>
      clock (after_device_poll ci e (initial_state t0)) \<le>
        clock (at_speedtest_test ci e (initial_state t0)) \<and>
      clock (at_speedtest_test ci e (initial_state t0)) \<le>
        clock (after_speedtest ci e (initial_state t0))) \<and>
    times_of Login (io (snd (loop_body ci e' (snd (loop_body ci e s))))) =
      times_of Login (io s) @ [clock s, clock (after_speedtest ci e s) + max 0 (real_of_int ci)] \<and>
    last_speedtest_time (snd (loop_body ci e s)) =
      (if speedtest_due (at_speedtest_test ci e s) then clock (at_speedtest_test ci e s)
       else last_speedtest_time s) \<and>
    speedtest_due (at_speedtest_test ci e' (snd (loop_body ci e s))) =
      (clock (at_speedtest_test ci e' (snd (loop_body ci e s))) -
         last_speedtest_time (snd (loop_body ci e s)) \<ge> 3600)"
proof -
  note frame = loop_body_frame [OF assms(1)]
  have first: "times_of Login (io (snd (loop_body ci e (initial_state t0)))) = [t0] \<and>
      times_of Ping (io (snd (loop_body ci e (initial_state t0)))) =
        [clock (after_device_poll ci e (initial_state t0))] \<and>
      times_of Speedtest_init (io (snd (loop_body ci e (initial_state t0)))) =
        [clock (at_speedtest_test ci e (initial_state t0))] \<and>
      times_of Sleep (io (snd (loop_body ci e (initial_state t0)))) =
        [clock (after_speedtest ci e (initial_state t0))] \<and>
      t0 \<le> clock (after_device_poll ci e (initial_state t0)) \<and>
      clock (after_device_poll ci e (initial_state t0)) \<le>
        clock (at_speedtest_test ci e (initial_state t0)) \<and>
      clock (at_speedtest_test ci e (initial_state t0)) \<le>
        clock (after_speedtest ci e (initial_state t0))"
    if t: "takes_time e" and "3600 \<le> t0"
  proof -
    note mono = after_speedtest_clock_mono [OF t, where s = "initial_state t0" and ci = ci]
    from mono(1) have m1: "t0 \<le> clock (after_device_poll ci e (initial_state t0))"
      by (simp add: initial_state_simps)
    with mono(2) that(2) have "3600 \<le> clock (at_speedtest_test ci e (initial_state t0))"
      by linarith
    then have "speedtest_due (at_speedtest_test ci e (initial_state t0))"
      by (simp add: speedtest_due_def at_speedtest_test_frame initial_state_simps
          speedtest_interval_seconds_def)
    with m1 mono(2,3) show ?thesis
      by (simp add: frame initial_state_simps times_of_Nil)
  qed
  have due: "speedtest_due (at_speedtest_test ci e' (snd (loop_body ci e s))) =
      (clock (at_speedtest_test ci e' (snd (loop_body ci e s))) -
         last_speedtest_time (snd (loop_body ci e s)) \<ge> 3600)"
    by (simp add: speedtest_due_def at_speedtest_test_frame speedtest_interval_seconds_def)
  from first two_iterations_logins [OF assms, of ci s] frame(6) [of ci s] due
  show ?thesis
    by blast
qed

lemma iteration_3570:
  "times_of Speedtest_init
     (io (snd (update_metrics_loop 3570 [iteration, iteration] (initial_state 10000)))) =
     [10007, 13624]"
  "clock (after_speedtest 3570 iteration (initial_state 10000)) = 10047"
proof -
  let ?s0 = "initial_state 10000"
  let ?s1 = "snd (loop_body 3570 iteration ?s0)"
  note frame = loop_body_frame [OF iteration_facts(1)]
  have d0: "speedtest_due (at_speedtest_test 3570 iteration ?s0)"
    by (simp add: speedtest_due_def at_speedtest_test_frame(1) iteration_facts
        initial_state_simps speedtest_interval_seconds_def)
  then show c: "clock (after_speedtest 3570 iteration ?s0) = 10047"
    by (simp add: after_speedtest_frame iteration_facts initial_state_simps)
  have s1: "times_of Speedtest_init (io ?s1) = [10007]" "last_speedtest_time ?s1 = 10007"
    "clock ?s1 = 13617"
    by (simp_all add: frame d0 c iteration_facts initial_state_simps times_of_Nil)
  have d1: "speedtest_due (at_speedtest_test 3570 iteration ?s1)"
    by (simp add: speedtest_due_def at_speedtest_test_frame(1) iteration_facts s1
        speedtest_interval_seconds_def)
  show "times_of Speedtest_init
     (io (snd (update_metrics_loop 3570 [iteration, iteration] (initial_state 10000)))) =
     [10007, 13624]"
  proof -
    have "times_of Speedtest_init (io (snd (loop_body 3570 iteration ?s1))) =
        times_of Speedtest_init (io ?s1) @ [clock (at_speedtest_test 3570 iteration ?s1)]"
      using frame(1) [of 3570 ?s1] d1 by (simp only: if_True)
    moreover have "clock (at_speedtest_test 3570 iteration ?s1) = 13624"
      by (simp add: iteration_facts(5) s1)
    ultimately have "times_of Speedtest_init (io (snd (loop_body 3570 iteration ?s1))) =
        [10007, 13624]"
      by (simp add: s1)
    then show ?thesis
      by (simp only: two_iterations [OF iteration_facts(1) iteration_facts(1)] snd_conv)
  qed
qed

text \<open>
  The counterexample to C6 as stated: with a collection interval of 3570 seconds, the
  first speed test starts at 10007 and completes at 10047; the next one starts at 13624,
  before completion time + period = 13647.
\<close>

theorem speedtest_due_before_completion_plus_period_counterexample:
  "times_of Speedtest_init
     (io (snd (update_metrics_loop 3570 [iteration, iteration] (initial_state 10000)))) =
     [10007, 13624] \<and>
   clock (after_speedtest 3570 iteration (initial_state 10000)) = 10047 \<and>
   (13624 :: real) < 10047 + speedtest_interval_seconds"
  by (simp add: iteration_3570 speedtest_interval_seconds_def)

theorem next_poll_is_due_after_the_sleep_and_speedtest_by_its_start_witness:
  "times_of Login (io (snd (loop_body 300 everything_fails (initial_state 10000)))) =
     [10000] \<and>
   times_of Speedtest_init (io (snd (loop_body 300 everything_fails (initial_state 10000)))) =
     [clock (at_speedtest_test 300 everything_fails (initial_state 10000))] \<and>
   times_of Login
     (io (snd (loop_body 300 iteration (snd (loop_body 300 everything_fails (initial_state 10000)))))) =
     [10000, clock (after_speedtest 300 everything_fails (initial_state 10000)) + 300] \<and>
   last_speedtest_time (snd (loop_body 300 everything_fails (initial_state 10000))) =
     clock (at_speedtest_test 300 everything_fails (initial_state 10000))"
proof -
  have a: "only_Exceptions everything_fails"
    by (simp add: only_Exceptions_def everything_fails_def router_hosts_time_out_def router_def
        speedtest_40s_def catchable_def catchable_response_def)
  have t: "takes_time everything_fails"
    by (simp add: takes_time_def everything_fails_def router_hosts_time_out_def router_def
        speedtest_40s_def)
  note inst = next_poll_is_due_after_the_sleep_and_speedtest_by_its_start
    [OF a iteration_facts(1), of "10000" 300 "initial_state 10000"]
  from inst t have first:
    "times_of Login (io (snd (loop_body 300 everything_fails (initial_state 10000)))) = [10000]"
    "times_of Speedtest_init (io (snd (loop_body 300 everything_fails (initial_state 10000)))) =
       [clock (at_speedtest_test 300 everything_fails (initial_state 10000))]"
    by simp_all
  from first(2) have due: "speedtest_due (at_speedtest_test 300 everything_fails (initial_state 10000))"
    by (simp add: loop_body_frame [OF a] initial_state_simps times_of_Nil split: if_splits)
  from inst due first show ?thesis
    by (simp add: initial_state_simps times_of_Nil)
qed

lemma set_public_ip_next_pull_time:
  "next_pull_time (set_public_ip ci ip s) = Some (clock s + real_of_int ci)"
  by (simp add: set_public_ip_def print_def Let_def split: option.splits)

lemma router_next_pull_time:
  assumes "list_all host_ok hosts"
  shows "next_pull_time (snd (collect_sagemcom_metrics ci (router hosts ip) s)) =
     Some (clock s + 6 + real_of_int ci)"
proof -
  have "next_pull_time (snd (collect_sagemcom_metrics_try ci (router hosts ip) s)) =
     Some (clock s + 6 + real_of_int ci)"
    unfolding collect_try_hosts_ok [OF router_calls(1,2) example_info_ok router_calls(3) assms]
    by (simp add: rest_unfold sub_frames collect_port_mappings_fst collect_wifi_stats_fst
        fetch_public_ip_fst set_devices_frame hosts_read_frame router_def
        set_public_ip_next_pull_time)
  then show ?thesis
    by (simp add: collect_alt router_try_returns [OF assms])
qed

lemma iteration_10:
  "next_pull_time (after_device_poll 10 iteration (initial_state 10000)) = Some 10016"
  "clock (after_speedtest 10 iteration (initial_state 10000)) = 10047"
  "times_of Speedtest_init
     (io (snd (update_metrics_loop 10 [iteration, iteration] (initial_state 10000)))) = [10007]"
  "times_of Login
     (io (snd (update_metrics_loop 10 [iteration, iteration] (initial_state 10000)))) =
     [10000, 10057]"
proof -
  let ?s0 = "initial_state 10000"
  let ?s1 = "snd (loop_body 10 iteration ?s0)"
  note frame = loop_body_frame [OF iteration_facts(1)]
  note two = two_iterations [OF iteration_facts(1) iteration_facts(1)]
  show "next_pull_time (after_device_poll 10 iteration ?s0) = Some 10016"
    by (simp add: after_device_poll_def iteration_def router_next_pull_time example_hosts_ok
        initial_state_simps)
  have d0: "speedtest_due (at_speedtest_test 10 iteration ?s0)"
    by (simp add: speedtest_due_def at_speedtest_test_frame(1) iteration_facts
        initial_state_simps speedtest_interval_seconds_def)
  then show c: "clock (after_speedtest 10 iteration ?s0) = 10047"
    by (simp add: after_speedtest_frame iteration_facts initial_state_simps)
  have s1: "times_of Speedtest_init (io ?s1) = [10007]" "last_speedtest_time ?s1 = 10007"
    "clock ?s1 = 10057" "times_of Login (io ?s1) = [10000]"
    by (simp_all add: frame d0 c iteration_facts initial_state_simps times_of_Nil)
  have d1: "\<not> speedtest_due (at_speedtest_test 10 iteration ?s1)"
    by (simp add: speedtest_due_def at_speedtest_test_frame(1) iteration_facts s1
        speedtest_interval_seconds_def)
  have "times_of Speedtest_init (io (snd (loop_body 10 iteration ?s1))) =
      times_of Speedtest_init (io ?s1)"
    using frame(1) [of 10 ?s1] d1 by (simp only: if_False append_Nil2)
  then show "times_of Speedtest_init
     (io (snd (update_metrics_loop 10 [iteration, iteration] (initial_state 10000)))) = [10007]"
    by (simp only: two snd_conv s1)
  have "times_of Login (io (snd (loop_body 10 iteration ?s1))) =
      times_of Login (io ?s1) @ [clock ?s1]"
    by (rule frame(2))
  then show "times_of Login
     (io (snd (update_metrics_loop 10 [iteration, iteration] (initial_state 10000)))) =
     [10000, 10057]"
    by (simp only: two snd_conv s1 append_Cons append_Nil)
qed

section \<open>The speed test and the fast collectors\<close>

text \<open>
  The counterexample to C2 as stated, with a collection interval of 10 seconds. The
  device poll of the first iteration ends at 10006 and announces the next one for 10016
  (\<^verbatim>\<open>next_pull_time\<close>). The speed test starts at 10007 and runs until 10047. The
  next login is issued at 10057: the device poll that was due while the speed test was
  running has waited for it.
\<close>

theorem speedtest_delays_the_next_device_poll_counterexample:
  "next_pull_time (after_device_poll 10 iteration (initial_state 10000)) = Some 10016 \<and>
   times_of Speedtest_init
     (io (snd (update_metrics_loop 10 [iteration, iteration] (initial_state 10000)))) =
     [10007] \<and>
   clock (after_speedtest 10 iteration (initial_state 10000)) = 10047 \<and>
   times_of Login
     (io (snd (update_metrics_loop 10 [iteration, iteration] (initial_state 10000)))) =
     [10000, 10057]"
  by (simp only: iteration_10 simp_thms)

text \<open>
  C2, as the code has it. The loop awaits its collectors one after the other. While the
  speed test runs, no login and no probe is issued. The next login follows the end of
  the speed-test step by the collection interval: it is issued at the clock reading of
  the speed-test test, plus the seconds the speed test takes when it runs, plus the
  collection interval; the next probe follows that login's device poll. So a running
  speed test delays the fast collectors by its whole duration.
\<close>

theorem fast_collectors_wait_for_the_speedtest:
  assumes "only_Exceptions e" and "only_Exceptions e'"
  shows "times_of Login (io (after_speedtest ci e s)) =
      times_of Login (io (at_speedtest_test ci e s)) \<and>
    times_of Ping (io (after_speedtest ci e s)) = times_of Ping (io (at_speedtest_test ci e s)) \<and>
    clock (after_speedtest ci e s) =
      clock (at_speedtest_test ci e s) +
      (if speedtest_due (at_speedtest_test ci e s) then run_speedtest_seconds (spd e) else 0) \<and>
    times_of Login (io (snd (loop_body ci e' (snd (loop_body ci e s))))) =
      times_of Login (io s) @
      [clock s,
       clock (at_speedtest_test ci e s) +
       (if speedtest_due (at_speedtest_test ci e s) then run_speedtest_seconds (spd e) else 0) +
       max 0 (real_of_int ci)] \<and>
    times_of Ping (io (snd (loop_body ci e' (snd (loop_body ci e s))))) =
      times_of Ping (io s) @
      [clock (after_device_poll ci e s),
       clock (after_device_poll ci e' (snd (loop_body ci e s)))] \<and>
    (takes_time e' \<longrightarrow>
       clock (snd (loop_body ci e s)) \<le> clock (after_device_poll ci e' (snd (loop_body ci e s))))"
proof -
  have a: "times_of Login (io (after_speedtest ci e s)) =
      times_of Login (io (at_speedtest_test ci e s))"
    "times_of Ping (io (after_speedtest ci e s)) = times_of Ping (io (at_speedtest_test ci e s))"
    by (simp_all add: after_speedtest_def possibly_run_speedtest_frame)
  have b: "times_of Login (io (snd (loop_body ci e' (snd (loop_body ci e s))))) =
      times_of Login (io s) @
      [clock s,
       clock (at_speedtest_test ci e s) +
       (if speedtest_due (at_speedtest_test ci e s) then run_speedtest_seconds (spd e) else 0) +
       max 0 (real_of_int ci)]"
    by (simp only: two_iterations_logins [OF assms] after_speedtest_frame(5))
  have c: "times_of Ping (io (snd (loop_body ci e' (snd (loop_body ci e s))))) =
      times_of Ping (io s) @
      [clock (after_device_poll ci e s),
       clock (after_device_poll ci e' (snd (loop_body ci e s)))]"
    by (simp add: loop_body_frame(3) [OF assms(2)] loop_body_frame(3) [OF assms(1)])
  from a b c after_speedtest_frame(5) [of ci e s] after_device_poll_clock [of e' _ ci]
  show ?thesis
    by blast
qed

theorem fast_collectors_wait_for_the_speedtest_witness:
  "times_of Login
     (io (snd (loop_body 300 iteration (snd (loop_body 300 iteration (initial_state 10000)))))) =
     [10000, 10347] \<and>
   clock (after_speedtest 300 iteration (initial_state 10000)) = 10047 \<and>
   clock (at_speedtest_test 300 iteration (initial_state 10000)) = 10007"
proof -
  let ?s0 = "initial_state 10000"
  note inst = fast_collectors_wait_for_the_speedtest
    [OF iteration_facts(1) iteration_facts(1), of 300 ?s0]
  note clock0 = inst [THEN conjunct2, THEN conjunct2, THEN conjunct1]
    and logins = inst [THEN conjunct2, THEN conjunct2, THEN conjunct2, THEN conjunct1]
  have d0: "speedtest_due (at_speedtest_test 300 iteration ?s0)"
    by (simp add: speedtest_due_def at_speedtest_test_frame(1) iteration_facts
        initial_state_simps speedtest_interval_seconds_def)
  have "clock (after_speedtest 300 iteration ?s0) = 10047"
    unfolding clock0 by (simp add: d0 iteration_facts initial_state_simps)
  moreover have "times_of Login
     (io (snd (loop_body 300 iteration (snd (loop_body 300 iteration ?s0))))) = [10000, 10347]"
    unfolding logins by (simp add: d0 iteration_facts initial_state_simps times_of_Nil)
  ultimately show ?thesis
    by (simp add: iteration_facts initial_state_simps)
qed

end
